theory Spec2Isabelle
  imports Complex_Main "HOL-Library.Word" "HOL-Library.Monad_Syntax"
begin

section \<open>Data model of Drag.go\<close>

text \<open>
  The Go type \<^verbatim>\<open>float64\<close> is modelled by \<^typ>\<open>real\<close> with exact arithmetic: rounding,
  infinities and NaN are not part of the model. Every decimal literal of the source denotes
  the rational number it is written as. The Go type \<^verbatim>\<open>byte\<close> is an 8-bit word, and
  the Go type \<^verbatim>\<open>int\<close> is \<^typ>\<open>int\<close> (all indices in this file stay far below
  the 64-bit range). A run-time panic is the value \<open>None\<close>.
\<close>

type_synonym byte = "8 word"

definition DragTableG1 :: byte where "DragTableG1 = 1"
definition DragTableG2 :: byte where "DragTableG2 = 2"
definition DragTableG5 :: byte where "DragTableG5 = 3"
definition DragTableG6 :: byte where "DragTableG6 = 4"
definition DragTableG7 :: byte where "DragTableG7 = 5"
definition DragTableG8 :: byte where "DragTableG8 = 6"
definition DragTableGS :: byte where "DragTableGS = 7"
definition DragTableGI :: byte where "DragTableGI = 8"

type_synonym dragFunction = "real \<Rightarrow> real option"

text \<open>
  Both structs of the source have fields \<^verbatim>\<open>A\<close> and \<^verbatim>\<open>B\<close>. The record declared last
  owns the short names, so \<open>A\<close> and \<open>B\<close> alone are the fields of a \<open>DataPoint\<close>, and the
  fields of a \<open>CurvePoint\<close> are written \<open>CurvePoint.A\<close> and \<open>CurvePoint.B\<close>.
\<close>

record CurvePoint =
  A :: real
  B :: real
  C :: real

record DataPoint =
  A :: real
  B :: real

text \<open>Indexing a slice with a Go \<^verbatim>\<open>int\<close>: out of range is a panic.\<close>

definition elemAt :: "'a list \<Rightarrow> int \<Rightarrow> 'a option" where
  "elemAt xs i = (if 0 \<le> i \<and> i < int (length xs) then Some (xs ! nat i) else None)"

text \<open>The assignment \<^verbatim>\<open>xs[i] = v\<close>: out of range is a panic.\<close>

definition setAt :: "'a list \<Rightarrow> int \<Rightarrow> 'a \<Rightarrow> 'a list option" where
  "setAt xs i v = (if 0 \<le> i \<and> i < int (length xs) then Some (xs[nat i := v]) else None)"

section \<open>The reference tables\<close>

definition g1Table :: "DataPoint list" where
  "g1Table = [
    (| A = 0.00, B = 0.2629 |),
    (| A = 0.05, B = 0.2558 |),
    (| A = 0.10, B = 0.2487 |),
    (| A = 0.15, B = 0.2413 |),
    (| A = 0.20, B = 0.2344 |),
    (| A = 0.25, B = 0.2278 |),
    (| A = 0.30, B = 0.2214 |),
    (| A = 0.35, B = 0.2155 |),
    (| A = 0.40, B = 0.2104 |),
    (| A = 0.45, B = 0.2061 |),
    (| A = 0.50, B = 0.2032 |),
    (| A = 0.55, B = 0.2020 |),
    (| A = 0.60, B = 0.2034 |),
    (| A = 0.70, B = 0.2165 |),
    (| A = 0.725, B = 0.2230 |),
    (| A = 0.75, B = 0.2313 |),
    (| A = 0.775, B = 0.2417 |),
    (| A = 0.80, B = 0.2546 |),
    (| A = 0.825, B = 0.2706 |),
    (| A = 0.85, B = 0.2901 |),
    (| A = 0.875, B = 0.3136 |),
    (| A = 0.90, B = 0.3415 |),
    (| A = 0.925, B = 0.3734 |),
    (| A = 0.95, B = 0.4084 |),
    (| A = 0.975, B = 0.4448 |),
    (| A = 1.0, B = 0.4805 |),
    (| A = 1.025, B = 0.5136 |),
    (| A = 1.05, B = 0.5427 |),
    (| A = 1.075, B = 0.5677 |),
    (| A = 1.10, B = 0.5883 |),
    (| A = 1.125, B = 0.6053 |),
    (| A = 1.15, B = 0.6191 |),
    (| A = 1.20, B = 0.6393 |),
    (| A = 1.25, B = 0.6518 |),
    (| A = 1.30, B = 0.6589 |),
    (| A = 1.35, B = 0.6621 |),
    (| A = 1.40, B = 0.6625 |),
    (| A = 1.45, B = 0.6607 |),
    (| A = 1.50, B = 0.6573 |),
    (| A = 1.55, B = 0.6528 |),
    (| A = 1.60, B = 0.6474 |),
    (| A = 1.65, B = 0.6413 |),
    (| A = 1.70, B = 0.6347 |),
    (| A = 1.75, B = 0.6280 |),
    (| A = 1.80, B = 0.6210 |),
    (| A = 1.85, B = 0.6141 |),
    (| A = 1.90, B = 0.6072 |),
    (| A = 1.95, B = 0.6003 |),
    (| A = 2.00, B = 0.5934 |),
    (| A = 2.05, B = 0.5867 |),
    (| A = 2.10, B = 0.5804 |),
    (| A = 2.15, B = 0.5743 |),
    (| A = 2.20, B = 0.5685 |),
    (| A = 2.25, B = 0.5630 |),
    (| A = 2.30, B = 0.5577 |),
    (| A = 2.35, B = 0.5527 |),
    (| A = 2.40, B = 0.5481 |),
    (| A = 2.45, B = 0.5438 |),
    (| A = 2.50, B = 0.5397 |),
    (| A = 2.60, B = 0.5325 |),
    (| A = 2.70, B = 0.5264 |),
    (| A = 2.80, B = 0.5211 |),
    (| A = 2.90, B = 0.5168 |),
    (| A = 3.00, B = 0.5133 |),
    (| A = 3.10, B = 0.5105 |),
    (| A = 3.20, B = 0.5084 |),
    (| A = 3.30, B = 0.5067 |),
    (| A = 3.40, B = 0.5054 |),
    (| A = 3.50, B = 0.5040 |),
    (| A = 3.60, B = 0.5030 |),
    (| A = 3.70, B = 0.5022 |),
    (| A = 3.80, B = 0.5016 |),
    (| A = 3.90, B = 0.5010 |),
    (| A = 4.00, B = 0.5006 |),
    (| A = 4.20, B = 0.4998 |),
    (| A = 4.40, B = 0.4995 |),
    (| A = 4.60, B = 0.4992 |),
    (| A = 4.80, B = 0.4990 |),
    (| A = 5.00, B = 0.4988 |)]"

definition g7Table :: "DataPoint list" where
  "g7Table = [
    (| A = 0.00, B = 0.1198 |),
    (| A = 0.05, B = 0.1197 |),
    (| A = 0.10, B = 0.1196 |),
    (| A = 0.15, B = 0.1194 |),
    (| A = 0.20, B = 0.1193 |),
    (| A = 0.25, B = 0.1194 |),
    (| A = 0.30, B = 0.1194 |),
    (| A = 0.35, B = 0.1194 |),
    (| A = 0.40, B = 0.1193 |),
    (| A = 0.45, B = 0.1193 |),
    (| A = 0.50, B = 0.1194 |),
    (| A = 0.55, B = 0.1193 |),
    (| A = 0.60, B = 0.1194 |),
    (| A = 0.65, B = 0.1197 |),
    (| A = 0.70, B = 0.1202 |),
    (| A = 0.725, B = 0.1207 |),
    (| A = 0.75, B = 0.1215 |),
    (| A = 0.775, B = 0.1226 |),
    (| A = 0.80, B = 0.1242 |),
    (| A = 0.825, B = 0.1266 |),
    (| A = 0.85, B = 0.1306 |),
    (| A = 0.875, B = 0.1368 |),
    (| A = 0.90, B = 0.1464 |),
    (| A = 0.925, B = 0.1660 |),
    (| A = 0.95, B = 0.2054 |),
    (| A = 0.975, B = 0.2993 |),
    (| A = 1.0, B = 0.3803 |),
    (| A = 1.025, B = 0.4015 |),
    (| A = 1.05, B = 0.4043 |),
    (| A = 1.075, B = 0.4034 |),
    (| A = 1.10, B = 0.4014 |),
    (| A = 1.125, B = 0.3987 |),
    (| A = 1.15, B = 0.3955 |),
    (| A = 1.20, B = 0.3884 |),
    (| A = 1.25, B = 0.3810 |),
    (| A = 1.30, B = 0.3732 |),
    (| A = 1.35, B = 0.3657 |),
    (| A = 1.40, B = 0.3580 |),
    (| A = 1.50, B = 0.3440 |),
    (| A = 1.55, B = 0.3376 |),
    (| A = 1.60, B = 0.3315 |),
    (| A = 1.65, B = 0.3260 |),
    (| A = 1.70, B = 0.3209 |),
    (| A = 1.75, B = 0.3160 |),
    (| A = 1.80, B = 0.3117 |),
    (| A = 1.85, B = 0.3078 |),
    (| A = 1.90, B = 0.3042 |),
    (| A = 1.95, B = 0.3010 |),
    (| A = 2.00, B = 0.2980 |),
    (| A = 2.05, B = 0.2951 |),
    (| A = 2.10, B = 0.2922 |),
    (| A = 2.15, B = 0.2892 |),
    (| A = 2.20, B = 0.2864 |),
    (| A = 2.25, B = 0.2835 |),
    (| A = 2.30, B = 0.2807 |),
    (| A = 2.35, B = 0.2779 |),
    (| A = 2.40, B = 0.2752 |),
    (| A = 2.45, B = 0.2725 |),
    (| A = 2.50, B = 0.2697 |),
    (| A = 2.55, B = 0.2670 |),
    (| A = 2.60, B = 0.2643 |),
    (| A = 2.65, B = 0.2615 |),
    (| A = 2.70, B = 0.2588 |),
    (| A = 2.75, B = 0.2561 |),
    (| A = 2.80, B = 0.2533 |),
    (| A = 2.85, B = 0.2506 |),
    (| A = 2.90, B = 0.2479 |),
    (| A = 2.95, B = 0.2451 |),
    (| A = 3.00, B = 0.2424 |),
    (| A = 3.10, B = 0.2368 |),
    (| A = 3.20, B = 0.2313 |),
    (| A = 3.30, B = 0.2258 |),
    (| A = 3.40, B = 0.2205 |),
    (| A = 3.50, B = 0.2154 |),
    (| A = 3.60, B = 0.2106 |),
    (| A = 3.70, B = 0.2060 |),
    (| A = 3.80, B = 0.2017 |),
    (| A = 3.90, B = 0.1975 |),
    (| A = 4.00, B = 0.1935 |),
    (| A = 4.20, B = 0.1861 |),
    (| A = 4.40, B = 0.1793 |),
    (| A = 4.60, B = 0.1730 |),
    (| A = 4.80, B = 0.1672 |),
    (| A = 5.00, B = 0.1618 |)]"

definition g2Table :: "DataPoint list" where
  "g2Table = [
    (| A = 0.00, B = 0.2303 |),
    (| A = 0.05, B = 0.2298 |),
    (| A = 0.10, B = 0.2287 |),
    (| A = 0.15, B = 0.2271 |),
    (| A = 0.20, B = 0.2251 |),
    (| A = 0.25, B = 0.2227 |),
    (| A = 0.30, B = 0.2196 |),
    (| A = 0.35, B = 0.2156 |),
    (| A = 0.40, B = 0.2107 |),
    (| A = 0.45, B = 0.2048 |),
    (| A = 0.50, B = 0.1980 |),
    (| A = 0.55, B = 0.1905 |),
    (| A = 0.60, B = 0.1828 |),
    (| A = 0.65, B = 0.1758 |),
    (| A = 0.70, B = 0.1702 |),
    (| A = 0.75, B = 0.1669 |),
    (| A = 0.775, B = 0.1664 |),
    (| A = 0.80, B = 0.1667 |),
    (| A = 0.825, B = 0.1682 |),
    (| A = 0.85, B = 0.1711 |),
    (| A = 0.875, B = 0.1761 |),
    (| A = 0.90, B = 0.1831 |),
    (| A = 0.925, B = 0.2004 |),
    (| A = 0.95, B = 0.2589 |),
    (| A = 0.975, B = 0.3492 |),
    (| A = 1.0, B = 0.3983 |),
    (| A = 1.025, B = 0.4075 |),
    (| A = 1.05, B = 0.4103 |),
    (| A = 1.075, B = 0.4114 |),
    (| A = 1.10, B = 0.4106 |),
    (| A = 1.125, B = 0.4089 |),
    (| A = 1.15, B = 0.4068 |),
    (| A = 1.175, B = 0.4046 |),
    (| A = 1.20, B = 0.4021 |),
    (| A = 1.25, B = 0.3966 |),
    (| A = 1.30, B = 0.3904 |),
    (| A = 1.35, B = 0.3835 |),
    (| A = 1.40, B = 0.3759 |),
    (| A = 1.45, B = 0.3678 |),
    (| A = 1.50, B = 0.3594 |),
    (| A = 1.55, B = 0.3512 |),
    (| A = 1.60, B = 0.3432 |),
    (| A = 1.65, B = 0.3356 |),
    (| A = 1.70, B = 0.3282 |),
    (| A = 1.75, B = 0.3213 |),
    (| A = 1.80, B = 0.3149 |),
    (| A = 1.85, B = 0.3089 |),
    (| A = 1.90, B = 0.3033 |),
    (| A = 1.95, B = 0.2982 |),
    (| A = 2.00, B = 0.2933 |),
    (| A = 2.05, B = 0.2889 |),
    (| A = 2.10, B = 0.2846 |),
    (| A = 2.15, B = 0.2806 |),
    (| A = 2.20, B = 0.2768 |),
    (| A = 2.25, B = 0.2731 |),
    (| A = 2.30, B = 0.2696 |),
    (| A = 2.35, B = 0.2663 |),
    (| A = 2.40, B = 0.2632 |),
    (| A = 2.45, B = 0.2602 |),
    (| A = 2.50, B = 0.2572 |),
    (| A = 2.55, B = 0.2543 |),
    (| A = 2.60, B = 0.2515 |),
    (| A = 2.65, B = 0.2487 |),
    (| A = 2.70, B = 0.2460 |),
    (| A = 2.75, B = 0.2433 |),
    (| A = 2.80, B = 0.2408 |),
    (| A = 2.85, B = 0.2382 |),
    (| A = 2.90, B = 0.2357 |),
    (| A = 2.95, B = 0.2333 |),
    (| A = 3.00, B = 0.2309 |),
    (| A = 3.10, B = 0.2262 |),
    (| A = 3.20, B = 0.2217 |),
    (| A = 3.30, B = 0.2173 |),
    (| A = 3.40, B = 0.2132 |),
    (| A = 3.50, B = 0.2091 |),
    (| A = 3.60, B = 0.2052 |),
    (| A = 3.70, B = 0.2014 |),
    (| A = 3.80, B = 0.1978 |),
    (| A = 3.90, B = 0.1944 |),
    (| A = 4.00, B = 0.1912 |),
    (| A = 4.20, B = 0.1851 |),
    (| A = 4.40, B = 0.1794 |),
    (| A = 4.60, B = 0.1741 |),
    (| A = 4.80, B = 0.1693 |),
    (| A = 5.00, B = 0.1648 |)]"

definition g5Table :: "DataPoint list" where
  "g5Table = [
    (| A = 0.00, B = 0.1710 |),
    (| A = 0.05, B = 0.1719 |),
    (| A = 0.10, B = 0.1727 |),
    (| A = 0.15, B = 0.1732 |),
    (| A = 0.20, B = 0.1734 |),
    (| A = 0.25, B = 0.1730 |),
    (| A = 0.30, B = 0.1718 |),
    (| A = 0.35, B = 0.1696 |),
    (| A = 0.40, B = 0.1668 |),
    (| A = 0.45, B = 0.1637 |),
    (| A = 0.50, B = 0.1603 |),
    (| A = 0.55, B = 0.1566 |),
    (| A = 0.60, B = 0.1529 |),
    (| A = 0.65, B = 0.1497 |),
    (| A = 0.70, B = 0.1473 |),
    (| A = 0.75, B = 0.1463 |),
    (| A = 0.80, B = 0.1489 |),
    (| A = 0.85, B = 0.1583 |),
    (| A = 0.875, B = 0.1672 |),
    (| A = 0.90, B = 0.1815 |),
    (| A = 0.925, B = 0.2051 |),
    (| A = 0.95, B = 0.2413 |),
    (| A = 0.975, B = 0.2884 |),
    (| A = 1.0, B = 0.3379 |),
    (| A = 1.025, B = 0.3785 |),
    (| A = 1.05, B = 0.4032 |),
    (| A = 1.075, B = 0.4147 |),
    (| A = 1.10, B = 0.4201 |),
    (| A = 1.15, B = 0.4278 |),
    (| A = 1.20, B = 0.4338 |),
    (| A = 1.25, B = 0.4373 |),
    (| A = 1.30, B = 0.4392 |),
    (| A = 1.35, B = 0.4403 |),
    (| A = 1.40, B = 0.4406 |),
    (| A = 1.45, B = 0.4401 |),
    (| A = 1.50, B = 0.4386 |),
    (| A = 1.55, B = 0.4362 |),
    (| A = 1.60, B = 0.4328 |),
    (| A = 1.65, B = 0.4286 |),
    (| A = 1.70, B = 0.4237 |),
    (| A = 1.75, B = 0.4182 |),
    (| A = 1.80, B = 0.4121 |),
    (| A = 1.85, B = 0.4057 |),
    (| A = 1.90, B = 0.3991 |),
    (| A = 1.95, B = 0.3926 |),
    (| A = 2.00, B = 0.3861 |),
    (| A = 2.05, B = 0.3800 |),
    (| A = 2.10, B = 0.3741 |),
    (| A = 2.15, B = 0.3684 |),
    (| A = 2.20, B = 0.3630 |),
    (| A = 2.25, B = 0.3578 |),
    (| A = 2.30, B = 0.3529 |),
    (| A = 2.35, B = 0.3481 |),
    (| A = 2.40, B = 0.3435 |),
    (| A = 2.45, B = 0.3391 |),
    (| A = 2.50, B = 0.3349 |),
    (| A = 2.60, B = 0.3269 |),
    (| A = 2.70, B = 0.3194 |),
    (| A = 2.80, B = 0.3125 |),
    (| A = 2.90, B = 0.3060 |),
    (| A = 3.00, B = 0.2999 |),
    (| A = 3.10, B = 0.2942 |),
    (| A = 3.20, B = 0.2889 |),
    (| A = 3.30, B = 0.2838 |),
    (| A = 3.40, B = 0.2790 |),
    (| A = 3.50, B = 0.2745 |),
    (| A = 3.60, B = 0.2703 |),
    (| A = 3.70, B = 0.2662 |),
    (| A = 3.80, B = 0.2624 |),
    (| A = 3.90, B = 0.2588 |),
    (| A = 4.00, B = 0.2553 |),
    (| A = 4.20, B = 0.2488 |),
    (| A = 4.40, B = 0.2429 |),
    (| A = 4.60, B = 0.2376 |),
    (| A = 4.80, B = 0.2326 |),
    (| A = 5.00, B = 0.2280 |)]"

definition g6Table :: "DataPoint list" where
  "g6Table = [
    (| A = 0.00, B = 0.2617 |),
    (| A = 0.05, B = 0.2553 |),
    (| A = 0.10, B = 0.2491 |),
    (| A = 0.15, B = 0.2432 |),
    (| A = 0.20, B = 0.2376 |),
    (| A = 0.25, B = 0.2324 |),
    (| A = 0.30, B = 0.2278 |),
    (| A = 0.35, B = 0.2238 |),
    (| A = 0.40, B = 0.2205 |),
    (| A = 0.45, B = 0.2177 |),
    (| A = 0.50, B = 0.2155 |),
    (| A = 0.55, B = 0.2138 |),
    (| A = 0.60, B = 0.2126 |),
    (| A = 0.65, B = 0.2121 |),
    (| A = 0.70, B = 0.2122 |),
    (| A = 0.75, B = 0.2132 |),
    (| A = 0.80, B = 0.2154 |),
    (| A = 0.85, B = 0.2194 |),
    (| A = 0.875, B = 0.2229 |),
    (| A = 0.90, B = 0.2297 |),
    (| A = 0.925, B = 0.2449 |),
    (| A = 0.95, B = 0.2732 |),
    (| A = 0.975, B = 0.3141 |),
    (| A = 1.0, B = 0.3597 |),
    (| A = 1.025, B = 0.3994 |),
    (| A = 1.05, B = 0.4261 |),
    (| A = 1.075, B = 0.4402 |),
    (| A = 1.10, B = 0.4465 |),
    (| A = 1.125, B = 0.4490 |),
    (| A = 1.15, B = 0.4497 |),
    (| A = 1.175, B = 0.4494 |),
    (| A = 1.20, B = 0.4482 |),
    (| A = 1.225, B = 0.4464 |),
    (| A = 1.25, B = 0.4441 |),
    (| A = 1.30, B = 0.4390 |),
    (| A = 1.35, B = 0.4336 |),
    (| A = 1.40, B = 0.4279 |),
    (| A = 1.45, B = 0.4221 |),
    (| A = 1.50, B = 0.4162 |),
    (| A = 1.55, B = 0.4102 |),
    (| A = 1.60, B = 0.4042 |),
    (| A = 1.65, B = 0.3981 |),
    (| A = 1.70, B = 0.3919 |),
    (| A = 1.75, B = 0.3855 |),
    (| A = 1.80, B = 0.3788 |),
    (| A = 1.85, B = 0.3721 |),
    (| A = 1.90, B = 0.3652 |),
    (| A = 1.95, B = 0.3583 |),
    (| A = 2.00, B = 0.3515 |),
    (| A = 2.05, B = 0.3447 |),
    (| A = 2.10, B = 0.3381 |),
    (| A = 2.15, B = 0.3314 |),
    (| A = 2.20, B = 0.3249 |),
    (| A = 2.25, B = 0.3185 |),
    (| A = 2.30, B = 0.3122 |),
    (| A = 2.35, B = 0.3060 |),
    (| A = 2.40, B = 0.3000 |),
    (| A = 2.45, B = 0.2941 |),
    (| A = 2.50, B = 0.2883 |),
    (| A = 2.60, B = 0.2772 |),
    (| A = 2.70, B = 0.2668 |),
    (| A = 2.80, B = 0.2574 |),
    (| A = 2.90, B = 0.2487 |),
    (| A = 3.00, B = 0.2407 |),
    (| A = 3.10, B = 0.2333 |),
    (| A = 3.20, B = 0.2265 |),
    (| A = 3.30, B = 0.2202 |),
    (| A = 3.40, B = 0.2144 |),
    (| A = 3.50, B = 0.2089 |),
    (| A = 3.60, B = 0.2039 |),
    (| A = 3.70, B = 0.1991 |),
    (| A = 3.80, B = 0.1947 |),
    (| A = 3.90, B = 0.1905 |),
    (| A = 4.00, B = 0.1866 |),
    (| A = 4.20, B = 0.1794 |),
    (| A = 4.40, B = 0.1730 |),
    (| A = 4.60, B = 0.1673 |),
    (| A = 4.80, B = 0.1621 |),
    (| A = 5.00, B = 0.1574 |)]"

definition g8Table :: "DataPoint list" where
  "g8Table = [
    (| A = 0.00, B = 0.2105 |),
    (| A = 0.05, B = 0.2105 |),
    (| A = 0.10, B = 0.2104 |),
    (| A = 0.15, B = 0.2104 |),
    (| A = 0.20, B = 0.2103 |),
    (| A = 0.25, B = 0.2103 |),
    (| A = 0.30, B = 0.2103 |),
    (| A = 0.35, B = 0.2103 |),
    (| A = 0.40, B = 0.2103 |),
    (| A = 0.45, B = 0.2102 |),
    (| A = 0.50, B = 0.2102 |),
    (| A = 0.55, B = 0.2102 |),
    (| A = 0.60, B = 0.2102 |),
    (| A = 0.65, B = 0.2102 |),
    (| A = 0.70, B = 0.2103 |),
    (| A = 0.75, B = 0.2103 |),
    (| A = 0.80, B = 0.2104 |),
    (| A = 0.825, B = 0.2104 |),
    (| A = 0.85, B = 0.2105 |),
    (| A = 0.875, B = 0.2106 |),
    (| A = 0.90, B = 0.2109 |),
    (| A = 0.925, B = 0.2183 |),
    (| A = 0.95, B = 0.2571 |),
    (| A = 0.975, B = 0.3358 |),
    (| A = 1.0, B = 0.4068 |),
    (| A = 1.025, B = 0.4378 |),
    (| A = 1.05, B = 0.4476 |),
    (| A = 1.075, B = 0.4493 |),
    (| A = 1.10, B = 0.4477 |),
    (| A = 1.125, B = 0.4450 |),
    (| A = 1.15, B = 0.4419 |),
    (| A = 1.20, B = 0.4353 |),
    (| A = 1.25, B = 0.4283 |),
    (| A = 1.30, B = 0.4208 |),
    (| A = 1.35, B = 0.4133 |),
    (| A = 1.40, B = 0.4059 |),
    (| A = 1.45, B = 0.3986 |),
    (| A = 1.50, B = 0.3915 |),
    (| A = 1.55, B = 0.3845 |),
    (| A = 1.60, B = 0.3777 |),
    (| A = 1.65, B = 0.3710 |),
    (| A = 1.70, B = 0.3645 |),
    (| A = 1.75, B = 0.3581 |),
    (| A = 1.80, B = 0.3519 |),
    (| A = 1.85, B = 0.3458 |),
    (| A = 1.90, B = 0.3400 |),
    (| A = 1.95, B = 0.3343 |),
    (| A = 2.00, B = 0.3288 |),
    (| A = 2.05, B = 0.3234 |),
    (| A = 2.10, B = 0.3182 |),
    (| A = 2.15, B = 0.3131 |),
    (| A = 2.20, B = 0.3081 |),
    (| A = 2.25, B = 0.3032 |),
    (| A = 2.30, B = 0.2983 |),
    (| A = 2.35, B = 0.2937 |),
    (| A = 2.40, B = 0.2891 |),
    (| A = 2.45, B = 0.2845 |),
    (| A = 2.50, B = 0.2802 |),
    (| A = 2.60, B = 0.2720 |),
    (| A = 2.70, B = 0.2642 |),
    (| A = 2.80, B = 0.2569 |),
    (| A = 2.90, B = 0.2499 |),
    (| A = 3.00, B = 0.2432 |),
    (| A = 3.10, B = 0.2368 |),
    (| A = 3.20, B = 0.2308 |),
    (| A = 3.30, B = 0.2251 |),
    (| A = 3.40, B = 0.2197 |),
    (| A = 3.50, B = 0.2147 |),
    (| A = 3.60, B = 0.2101 |),
    (| A = 3.70, B = 0.2058 |),
    (| A = 3.80, B = 0.2019 |),
    (| A = 3.90, B = 0.1983 |),
    (| A = 4.00, B = 0.1950 |),
    (| A = 4.20, B = 0.1890 |),
    (| A = 4.40, B = 0.1837 |),
    (| A = 4.60, B = 0.1791 |),
    (| A = 4.80, B = 0.1750 |),
    (| A = 5.00, B = 0.1713 |)]"

definition gITable :: "DataPoint list" where
  "gITable = [
    (| A = 0.00, B = 0.2282 |),
    (| A = 0.05, B = 0.2282 |),
    (| A = 0.10, B = 0.2282 |),
    (| A = 0.15, B = 0.2282 |),
    (| A = 0.20, B = 0.2282 |),
    (| A = 0.25, B = 0.2282 |),
    (| A = 0.30, B = 0.2282 |),
    (| A = 0.35, B = 0.2282 |),
    (| A = 0.40, B = 0.2282 |),
    (| A = 0.45, B = 0.2282 |),
    (| A = 0.50, B = 0.2282 |),
    (| A = 0.55, B = 0.2282 |),
    (| A = 0.60, B = 0.2282 |),
    (| A = 0.65, B = 0.2282 |),
    (| A = 0.70, B = 0.2282 |),
    (| A = 0.725, B = 0.2353 |),
    (| A = 0.75, B = 0.2434 |),
    (| A = 0.775, B = 0.2515 |),
    (| A = 0.80, B = 0.2596 |),
    (| A = 0.825, B = 0.2677 |),
    (| A = 0.85, B = 0.2759 |),
    (| A = 0.875, B = 0.2913 |),
    (| A = 0.90, B = 0.3170 |),
    (| A = 0.925, B = 0.3442 |),
    (| A = 0.95, B = 0.3728 |),
    (| A = 1.0, B = 0.4349 |),
    (| A = 1.05, B = 0.5034 |),
    (| A = 1.075, B = 0.5402 |),
    (| A = 1.10, B = 0.5756 |),
    (| A = 1.125, B = 0.5887 |),
    (| A = 1.15, B = 0.6018 |),
    (| A = 1.175, B = 0.6149 |),
    (| A = 1.20, B = 0.6279 |),
    (| A = 1.225, B = 0.6418 |),
    (| A = 1.25, B = 0.6423 |),
    (| A = 1.30, B = 0.6423 |),
    (| A = 1.35, B = 0.6423 |),
    (| A = 1.40, B = 0.6423 |),
    (| A = 1.45, B = 0.6423 |),
    (| A = 1.50, B = 0.6423 |),
    (| A = 1.55, B = 0.6423 |),
    (| A = 1.60, B = 0.6423 |),
    (| A = 1.625, B = 0.6407 |),
    (| A = 1.65, B = 0.6378 |),
    (| A = 1.70, B = 0.6321 |),
    (| A = 1.75, B = 0.6266 |),
    (| A = 1.80, B = 0.6213 |),
    (| A = 1.85, B = 0.6163 |),
    (| A = 1.90, B = 0.6113 |),
    (| A = 1.95, B = 0.6066 |),
    (| A = 2.00, B = 0.6020 |),
    (| A = 2.05, B = 0.5976 |),
    (| A = 2.10, B = 0.5933 |),
    (| A = 2.15, B = 0.5891 |),
    (| A = 2.20, B = 0.5850 |),
    (| A = 2.25, B = 0.5811 |),
    (| A = 2.30, B = 0.5773 |),
    (| A = 2.35, B = 0.5733 |),
    (| A = 2.40, B = 0.5679 |),
    (| A = 2.45, B = 0.5626 |),
    (| A = 2.50, B = 0.5576 |),
    (| A = 2.60, B = 0.5478 |),
    (| A = 2.70, B = 0.5386 |),
    (| A = 2.80, B = 0.5298 |),
    (| A = 2.90, B = 0.5215 |),
    (| A = 3.00, B = 0.5136 |),
    (| A = 3.10, B = 0.5061 |),
    (| A = 3.20, B = 0.4989 |),
    (| A = 3.30, B = 0.4921 |),
    (| A = 3.40, B = 0.4855 |),
    (| A = 3.50, B = 0.4792 |),
    (| A = 3.60, B = 0.4732 |),
    (| A = 3.70, B = 0.4674 |),
    (| A = 3.80, B = 0.4618 |),
    (| A = 3.90, B = 0.4564 |),
    (| A = 4.00, B = 0.4513 |),
    (| A = 4.20, B = 0.4415 |),
    (| A = 4.40, B = 0.4323 |),
    (| A = 4.60, B = 0.4238 |),
    (| A = 4.80, B = 0.4157 |),
    (| A = 5.00, B = 0.4082 |)]"

definition gSTable :: "DataPoint list" where
  "gSTable = gITable"

section \<open>calculateCurve\<close>

text \<open>
  The loop \<^verbatim>\<open>for i = 1; i < numPoints-1; i++\<close> of \<^verbatim>\<open>calculateCurve\<close>, from the
  index \<open>i\<close> on, over the curve built so far.
\<close>

function calculateCurveLoop :: "DataPoint list \<Rightarrow> int \<Rightarrow> CurvePoint list \<Rightarrow> CurvePoint list option" where
  "calculateCurveLoop dataPoints i curve =
     (if i < int (length dataPoints) - 1 then
        do {
          p1 \<leftarrow> elemAt dataPoints (i - 1);
          p2 \<leftarrow> elemAt dataPoints i;
          p3 \<leftarrow> elemAt dataPoints (i + 1);
          let x1 = A p1;
          let x2 = A p2;
          let x3 = A p3;
          let y1 = B p1;
          let y2 = B p2;
          let y3 = B p3;
          let a = ((y3 - y1) * (x2 - x1) - (y2 - y1) * (x3 - x1)) /
                  ((x3 * x3 - x1 * x1) * (x2 - x1) - (x2 * x2 - x1 * x1) * (x3 - x1));
          let b = (y2 - y1 - a * (x2 * x2 - x1 * x1)) / (x2 - x1);
          let c = y1 - (a * x1 * x1 + b * x1);
          curve' \<leftarrow> setAt curve i \<lparr>CurvePoint.A = a, CurvePoint.B = b, C = c\<rparr>;
          calculateCurveLoop dataPoints (i + 1) curve'
        }
      else Some curve)"
  by pat_completeness auto
termination
  by (relation "measure (\<lambda>(dataPoints, i, curve). nat (int (length dataPoints) - 1 - i))") auto

definition calculateCurve :: "DataPoint list \<Rightarrow> CurvePoint list option" where
  "calculateCurve dataPoints =
     (let numPoints = int (length dataPoints);
          curve = replicate (length dataPoints) \<lparr>CurvePoint.A = 0, CurvePoint.B = 0, C = 0\<rparr>
      in do {
        d1 \<leftarrow> elemAt dataPoints 1;
        d0 \<leftarrow> elemAt dataPoints 0;
        let rate = (B d1 - B d0) / (A d1 - A d0);
        curve \<leftarrow> setAt curve 0 \<lparr>CurvePoint.A = 0, CurvePoint.B = rate, C = B d0 - A d0 * rate\<rparr>;
        curve \<leftarrow> calculateCurveLoop dataPoints 1 curve;
        dl \<leftarrow> elemAt dataPoints (numPoints - 1);
        dk \<leftarrow> elemAt dataPoints (numPoints - 2);
        let rate = (B dl - B dk) / (A dl - A dk);
        setAt curve (numPoints - 1) \<lparr>CurvePoint.A = 0, CurvePoint.B = rate, C = B dl - A dk * rate\<rparr>
      })"

section \<open>calculateByCurve\<close>

text \<open>
  The loop \<^verbatim>\<open>for (mhi - mlo) > 1\<close>; it returns the final \<open>(mlo, mhi)\<close>.
\<close>

function searchLoop :: "DataPoint list \<Rightarrow> real \<Rightarrow> int \<Rightarrow> int \<Rightarrow> (int \<times> int) option" where
  "searchLoop data mach mlo mhi =
     (if (mhi - mlo) > 1 then
        (let mid = \<lfloor>real_of_int (mhi + mlo) / 2.0\<rfloor> in
           case elemAt data mid of
             None \<Rightarrow> None
           | Some d \<Rightarrow>
               if A d < mach then searchLoop data mach mid mhi
               else searchLoop data mach mlo mid)
      else Some (mlo, mhi))"
  by pat_completeness auto
termination
proof (relation "measure (\<lambda>(data, mach, mlo, mhi). nat (mhi - mlo))")
  show "wf (measure (\<lambda>(data, mach, mlo, mhi). nat (mhi - mlo)))" by simp
next
  fix data :: "DataPoint list" and mach :: real and mlo mhi mid :: int and d :: DataPoint
  assume "1 < mhi - mlo" and "mid = \<lfloor>real_of_int (mhi + mlo) / 2.0\<rfloor>"
  moreover have "\<lfloor>real_of_int (mhi + mlo) / 2.0\<rfloor> = (mhi + mlo) div 2"
    using floor_divide_of_int_eq [of "mhi + mlo" 2] by simp
  ultimately have "mlo < mid" and "mid < mhi" by linarith+
  then show "((data, mach, mid, mhi), (data, mach, mlo, mhi))
        \<in> measure (\<lambda>(data, mach, mlo, mhi). nat (mhi - mlo))"
    and "((data, mach, mlo, mid), (data, mach, mlo, mhi))
        \<in> measure (\<lambda>(data, mach, mlo, mhi). nat (mhi - mlo))"
    by simp_all
qed

text \<open>
  The index \<open>m\<close> that \<^verbatim>\<open>calculateByCurve\<close> computes before it evaluates the polynomial.
\<close>

definition selectSegment :: "DataPoint list \<Rightarrow> CurvePoint list \<Rightarrow> real \<Rightarrow> int option" where
  "selectSegment data curve mach =
     (let numPoints = int (length curve);
          mlo = 0;
          mhi = numPoints - 2
      in do {
        (mlo, mhi) \<leftarrow> searchLoop data mach mlo mhi;
        dhi \<leftarrow> elemAt data mhi;
        dlo \<leftarrow> elemAt data mlo;
        Some (if (A dhi - mach) > (mach - A dlo) then mlo else mhi)
      })"

definition calculateByCurve :: "DataPoint list \<Rightarrow> CurvePoint list \<Rightarrow> real \<Rightarrow> real option" where
  "calculateByCurve data curve mach =
     do {
       m \<leftarrow> selectSegment data curve mach;
       p \<leftarrow> elemAt curve m;
       Some (C p + mach * (CurvePoint.B p + CurvePoint.A p * mach))
     }"

section \<open>The fitted curves\<close>

text \<open>
  The package-level variables \<^verbatim>\<open>g1Curve\<close> ... \<^verbatim>\<open>gSCurve\<close> are computed when the package
  is initialised. A panic of \<^verbatim>\<open>calculateCurve\<close> there is the value \<open>None\<close>.
\<close>

definition g1Curve :: "CurvePoint list option" where "g1Curve = calculateCurve g1Table"
definition g7Curve :: "CurvePoint list option" where "g7Curve = calculateCurve g7Table"
definition g2Curve :: "CurvePoint list option" where "g2Curve = calculateCurve g2Table"
definition g5Curve :: "CurvePoint list option" where "g5Curve = calculateCurve g5Table"
definition g6Curve :: "CurvePoint list option" where "g6Curve = calculateCurve g6Table"
definition g8Curve :: "CurvePoint list option" where "g8Curve = calculateCurve g8Table"
definition gICurve :: "CurvePoint list option" where "gICurve = calculateCurve gITable"
definition gSCurve :: "CurvePoint list option" where "gSCurve = calculateCurve gSTable"

section \<open>Ballistic coefficients\<close>

text \<open>
  An \<open>Errorf\<close> is an error value that a function returns (the format string and its
  arguments); a \<open>Panic\<close> is a call of \<^verbatim>\<open>panic\<close>, which unwinds the caller.
\<close>

datatype error = Errorf string "nat list" | Panic string

record BallisticCoefficient =
  "value" :: real
  table :: byte
  drag :: dragFunction

definition dragFunctionFactory :: "byte \<Rightarrow> error + dragFunction" where
  "dragFunctionFactory dragTable =
     (if dragTable = DragTableG1 then
        Inr (\<lambda>mach. do { curve \<leftarrow> g1Curve; calculateByCurve g1Table curve mach })
      else if dragTable = DragTableG2 then
        Inr (\<lambda>mach. do { curve \<leftarrow> g2Curve; calculateByCurve g2Table curve mach })
      else if dragTable = DragTableG5 then
        Inr (\<lambda>mach. do { curve \<leftarrow> g5Curve; calculateByCurve g5Table curve mach })
      else if dragTable = DragTableG6 then
        Inr (\<lambda>mach. do { curve \<leftarrow> g6Curve; calculateByCurve g6Table curve mach })
      else if dragTable = DragTableG7 then
        Inr (\<lambda>mach. do { curve \<leftarrow> g7Curve; calculateByCurve g7Table curve mach })
      else if dragTable = DragTableG8 then
        Inr (\<lambda>mach. do { curve \<leftarrow> g8Curve; calculateByCurve g8Table curve mach })
      else if dragTable = DragTableGI then
        Inr (\<lambda>mach. do { curve \<leftarrow> gICurve; calculateByCurve gITable curve mach })
      else if dragTable = DragTableGS then
        Inr (\<lambda>mach. do { curve \<leftarrow> gSCurve; calculateByCurve gSTable curve mach })
      else Inl (Panic ''unknown drag table type''))"

definition CreateBallisticCoefficient :: "real \<Rightarrow> byte \<Rightarrow> error + BallisticCoefficient" where
  "CreateBallisticCoefficient v dragTable =
     (if dragTable < DragTableG1 then
        Inl (Errorf ''ballisticCoefficient: Unknown drag table %d'' [unat dragTable])
      else if v \<le> 0 then
        Inl (Errorf ''ballisticCoefficient: Drag coefficient must be greater than zero'' [])
      else
        (case dragFunctionFactory dragTable of
           Inl e \<Rightarrow> Inl e
         | Inr f \<Rightarrow> Inr \<lparr>value = v, table = dragTable, drag = f\<rparr>))"

definition Value :: "BallisticCoefficient \<Rightarrow> real" where
  "Value v = value v"

definition Table :: "BallisticCoefficient \<Rightarrow> byte" where
  "Table v = table v"

definition Drag :: "BallisticCoefficient \<Rightarrow> real \<Rightarrow> real option" where
  "Drag v mach = do { d \<leftarrow> drag v mach; Some (d * 0.000208551 / value v) }"

section \<open>Vocabulary of the properties\<close>

text \<open>A table whose Mach values (field \<open>A\<close>) increase strictly from each sample to the next.\<close>

fun increasing :: "DataPoint list \<Rightarrow> bool" where
  "increasing (p # q # ps) = (A p < A q \<and> increasing (q # ps))"
| "increasing _ = True"

text \<open>
  The polynomial of one segment, as the last line of \<^verbatim>\<open>calculateByCurve\<close> evaluates it.
\<close>

definition evalSegment :: "CurvePoint \<Rightarrow> real \<Rightarrow> real" where
  "evalSegment p mach = C p + mach * (CurvePoint.B p + CurvePoint.A p * mach)"

text \<open>
  The body of the loop of \<^verbatim>\<open>calculateCurve\<close>: the segment computed from three adjacent
  samples.
\<close>

definition fit3 :: "DataPoint \<Rightarrow> DataPoint \<Rightarrow> DataPoint \<Rightarrow> CurvePoint" where
  "fit3 p1 p2 p3 =
     (let x1 = A p1; x2 = A p2; x3 = A p3; y1 = B p1; y2 = B p2; y3 = B p3;
          a = ((y3 - y1) * (x2 - x1) - (y2 - y1) * (x3 - x1)) /
              ((x3 * x3 - x1 * x1) * (x2 - x1) - (x2 * x2 - x1 * x1) * (x3 - x1));
          b = (y2 - y1 - a * (x2 * x2 - x1 * x1)) / (x2 - x1);
          c = y1 - (a * x1 * x1 + b * x1)
      in \<lparr>CurvePoint.A = a, CurvePoint.B = b, C = c\<rparr>)"

declare searchLoop.simps [simp del]
declare calculateCurveLoop.simps [simp del]

section \<open>Increasing tables\<close>


lemma increasing_Suc: "increasing ps \<Longrightarrow> Suc i < length ps \<Longrightarrow> A (ps ! i) < A (ps ! Suc i)"
proof (induction ps arbitrary: i rule: increasing.induct)
  case (1 p q ps)
  then show ?case by (cases i) auto
qed auto

lemma increasing_less: "increasing ps \<Longrightarrow> i < j \<Longrightarrow> j < length ps \<Longrightarrow> A (ps ! i) < A (ps ! j)"
proof (induction j)
  case 0
  then show ?case by simp
next
  case (Suc j)
  show ?case
  proof (cases "i = j")
    case True
    with Suc.prems show ?thesis using increasing_Suc by blast
  next
    case False
    with Suc.prems have "A (ps ! i) < A (ps ! j)" using Suc.IH by simp
    moreover have "A (ps ! j) < A (ps ! Suc j)" using Suc.prems increasing_Suc by blast
    ultimately show ?thesis by simp
  qed
qed

lemma increasing_le_imp: "increasing ps \<Longrightarrow> i < length ps \<Longrightarrow> j < length ps \<Longrightarrow> A (ps ! i) < A (ps ! j) \<Longrightarrow> i < j"
  by (metis increasing_less less_asym' linorder_neqE_nat less_irrefl)

lemma mid_eq: "\<lfloor>real_of_int k / 2.0\<rfloor> = k div 2"
  using floor_divide_of_int_eq [of k 2] by simp

lemma searchLoop_inv:
  "0 \<le> mlo \<Longrightarrow> mlo \<le> mhi \<Longrightarrow> mhi < int (length data) \<Longrightarrow>
   \<exists>lo hi. searchLoop data mach mlo mhi = Some (lo, hi) \<and> mlo \<le> lo \<and> lo \<le> hi \<and> hi \<le> mhi
     \<and> (hi - lo = 1 \<or> (lo = mlo \<and> hi = mhi \<and> mhi - mlo \<le> 1))
     \<and> (lo = mlo \<or> A (data ! nat lo) < mach)
     \<and> (hi = mhi \<or> \<not> A (data ! nat hi) < mach)"
proof (induction data mach mlo mhi rule: searchLoop.induct)
  case (1 data mach mlo mhi)
  show ?case
  proof (cases "mhi - mlo > 1")
    case False
    then show ?thesis using "1.prems" by (subst searchLoop.simps) auto
  next
    case True
    define mid where "mid = \<lfloor>real_of_int (mhi + mlo) / 2.0\<rfloor>"
    have mid2: "mid = (mhi + mlo) div 2" unfolding mid_def by (rule mid_eq)
    have bounds: "mlo < mid" "mid < mhi" using True mid2 by linarith+
    have at_mid: "elemAt data mid = Some (data ! nat mid)"
      using bounds "1.prems" by (simp add: elemAt_def)
    show ?thesis
    proof (cases "A (data ! nat mid) < mach")
      case lt: True
      have step: "searchLoop data mach mlo mhi = searchLoop data mach mid mhi"
        using True lt at_mid by (subst searchLoop.simps) (simp add: mid_def)
      from "1.IH"(1) [OF True mid_def at_mid] lt bounds "1.prems"
      obtain lo hi where "searchLoop data mach mid mhi = Some (lo, hi)" "mid \<le> lo" "lo \<le> hi" "hi \<le> mhi"
        "hi - lo = 1 \<or> (lo = mid \<and> hi = mhi \<and> mhi - mid \<le> 1)"
        "lo = mid \<or> A (data ! nat lo) < mach" "hi = mhi \<or> \<not> A (data ! nat hi) < mach"
        by auto
      then show ?thesis using step lt bounds by auto
    next
      case ge: False
      have step: "searchLoop data mach mlo mhi = searchLoop data mach mlo mid"
        using True ge at_mid by (subst searchLoop.simps) (simp add: mid_def)
      from "1.IH"(2) [OF True mid_def at_mid] ge bounds "1.prems"
      obtain lo hi where "searchLoop data mach mlo mid = Some (lo, hi)" "mlo \<le> lo" "lo \<le> hi" "hi \<le> mid"
        "hi - lo = 1 \<or> (lo = mlo \<and> hi = mid \<and> mid - mlo \<le> 1)"
        "lo = mlo \<or> A (data ! nat lo) < mach" "hi = mid \<or> \<not> A (data ! nat hi) < mach"
        by auto
      then show ?thesis using step ge bounds by auto
    qed
  qed
qed


lemma selectSegment_char:
  assumes n: "2 \<le> length curve" and len: "length data = length curve"
  shows "\<exists>lo hi. selectSegment data curve mach =
             Some (if (A (data ! nat hi) - mach) > (mach - A (data ! nat lo)) then lo else hi)
     \<and> 0 \<le> lo \<and> lo \<le> hi \<and> hi \<le> int (length curve) - 2
     \<and> (hi - lo = 1 \<or> (lo = 0 \<and> hi = int (length curve) - 2 \<and> length curve \<le> 3))
     \<and> (lo = 0 \<or> A (data ! nat lo) < mach)
     \<and> (hi = int (length curve) - 2 \<or> \<not> A (data ! nat hi) < mach)"
proof -
  have "0 \<le> (0::int)" "0 \<le> int (length curve) - 2" "int (length curve) - 2 < int (length data)"
    using n len by simp_all
  from searchLoop_inv [OF this, of mach]
  obtain lo hi where s: "searchLoop data mach 0 (int (length curve) - 2) = Some (lo, hi)"
    and b: "0 \<le> lo" "lo \<le> hi" "hi \<le> int (length curve) - 2"
    and d: "hi - lo = 1 \<or> (lo = 0 \<and> hi = int (length curve) - 2 \<and> int (length curve) - 2 - 0 \<le> 1)"
    and l: "lo = 0 \<or> A (data ! nat lo) < mach"
    and h: "hi = int (length curve) - 2 \<or> \<not> A (data ! nat hi) < mach"
    by blast
  have "elemAt data hi = Some (data ! nat hi)" "elemAt data lo = Some (data ! nat lo)"
    using b len by (simp_all add: elemAt_def)
  then have "selectSegment data curve mach =
      Some (if (A (data ! nat hi) - mach) > (mach - A (data ! nat lo)) then lo else hi)"
    using s by (simp add: selectSegment_def)
  then show ?thesis using b d l h by auto
qed

lemma selectSegment_bounds:
  assumes "2 \<le> length curve" and "length data = length curve"
  shows "\<exists>m. selectSegment data curve mach = Some m \<and> 0 \<le> m \<and> m \<le> int (length curve) - 2"
  using selectSegment_char [OF assms, of mach] by auto

lemma calculateByCurve_eval:
  assumes "2 \<le> length curve" and "length data = length curve"
  shows "\<exists>m. selectSegment data curve mach = Some m \<and> 0 \<le> m \<and> m \<le> int (length curve) - 2
     \<and> calculateByCurve data curve mach = Some (evalSegment (curve ! nat m) mach)"
proof -
  from selectSegment_bounds [OF assms, of mach]
  obtain m where m: "selectSegment data curve mach = Some m" "0 \<le> m" "m \<le> int (length curve) - 2"
    by blast
  then have "elemAt curve m = Some (curve ! nat m)" by (simp add: elemAt_def)
  with m show ?thesis by (simp add: calculateByCurve_def evalSegment_def)
qed


lemma selectSegment_node:
  assumes inc: "increasing data" and n: "2 \<le> length curve" and len: "length data = length curve"
    and i: "i < length data"
  shows "selectSegment data curve (A (data ! i)) = Some (min (int i) (int (length curve) - 2))"
proof -
  let ?x = "A (data ! i)"
  from selectSegment_char [OF n len, of ?x]
  obtain lo hi where s: "selectSegment data curve ?x =
             Some (if (A (data ! nat hi) - ?x) > (?x - A (data ! nat lo)) then lo else hi)"
    and b: "0 \<le> lo" "lo \<le> hi" "hi \<le> int (length curve) - 2"
    and d: "hi - lo = 1 \<or> (lo = 0 \<and> hi = int (length curve) - 2 \<and> length curve \<le> 3)"
    and l: "lo = 0 \<or> A (data ! nat lo) < ?x"
    and h: "hi = int (length curve) - 2 \<or> \<not> A (data ! nat hi) < ?x"
    by blast
  have lo_lt: "nat lo < length data" and hi_lt: "nat hi < length data" using b len by linarith+
  have L: "lo = 0 \<or> nat lo < i"
    using l increasing_le_imp [OF inc lo_lt i] by blast
  have H: "hi = int (length curve) - 2 \<or> \<not> nat hi < i"
    using h increasing_less [OF inc _ i, of "nat hi"] by blast
  have dd: "hi - lo \<le> 1" using d by linarith
  show ?thesis
  proof (cases "int i \<le> int (length curve) - 2")
    case inner: True
    show ?thesis
    proof (cases "i = 0")
      case True
      then have lo0: "lo = 0" using L by simp
      show ?thesis
      proof (cases "hi = 0")
        case True
        with lo0 s \<open>i = 0\<close> inner show ?thesis by simp
      next
        case False
        then have hi1: "nat hi = 1" using dd lo0 b by linarith
        have "A (data ! 0) < A (data ! 1)" using increasing_less [OF inc, of 0 1] n len by simp
        then show ?thesis using s lo0 hi1 \<open>i = 0\<close> inner by simp
      qed
    next
      case False
      then have "lo < int i" using L b by linarith
      moreover have "int i \<le> hi" using H inner b by linarith
      ultimately have lo_eq: "nat lo = i - 1" and hi_eq: "hi = int i" using dd False by linarith+
      have "A (data ! (i - 1)) < A (data ! i)" using increasing_less [OF inc, of "i - 1" i] False i by simp
      then show ?thesis using s lo_eq hi_eq inner by simp
    qed
  next
    case False
    then have ilast: "int i = int (length curve) - 1" using i len by linarith
    have hi_eq: "hi = int (length curve) - 2" using H b ilast by linarith
    have "nat lo < i" "nat hi < i" using b hi_eq ilast by linarith+
    then have "A (data ! nat lo) < ?x" "A (data ! nat hi) < ?x"
      using increasing_less [OF inc _ i] by blast+
    then show ?thesis using s hi_eq ilast by simp
  qed
qed

section \<open>The closed form of calculateCurve\<close>


lemma calculateCurveLoop_step:
  assumes "1 \<le> i" and "i < int (length dataPoints) - 1" and "length curve = length dataPoints"
  shows "calculateCurveLoop dataPoints i curve =
     calculateCurveLoop dataPoints (i + 1)
       (curve[nat i := fit3 (dataPoints ! nat (i - 1)) (dataPoints ! nat i) (dataPoints ! nat (i + 1))])"
  using assms
  by (subst calculateCurveLoop.simps) (simp add: elemAt_def setAt_def fit3_def Let_def)

lemma calculateCurveLoop_stop:
  "\<not> i < int (length dataPoints) - 1 \<Longrightarrow> calculateCurveLoop dataPoints i curve = Some curve"
  by (subst calculateCurveLoop.simps) simp

lemma calculateCurveLoop_spec:
  assumes "1 \<le> i" and "length curve = length dataPoints"
  shows "\<exists>res. calculateCurveLoop dataPoints i curve = Some res \<and> length res = length dataPoints
     \<and> (\<forall>j. i \<le> int j \<and> int j < int (length dataPoints) - 1 \<longrightarrow>
            res ! j = fit3 (dataPoints ! (j - 1)) (dataPoints ! j) (dataPoints ! (j + 1)))
     \<and> (\<forall>j. int j < i \<or> int (length dataPoints) - 1 \<le> int j \<longrightarrow> res ! j = curve ! j)"
  using assms
proof (induction "nat (int (length dataPoints) - 1 - i)" arbitrary: i curve)
  case 0
  then have "\<not> i < int (length dataPoints) - 1" by linarith
  then show ?case using calculateCurveLoop_stop "0.prems" by auto
next
  case (Suc k)
  then have lt: "i < int (length dataPoints) - 1" by linarith
  let ?c = "curve[nat i := fit3 (dataPoints ! nat (i - 1)) (dataPoints ! nat i) (dataPoints ! nat (i + 1))]"
  have step: "calculateCurveLoop dataPoints i curve = calculateCurveLoop dataPoints (i + 1) ?c"
    using calculateCurveLoop_step [OF Suc.prems(1) lt Suc.prems(2)] .
  have "k = nat (int (length dataPoints) - 1 - (i + 1))" using Suc.hyps(2) by linarith
  from Suc.hyps(1) [OF this, of ?c] Suc.prems
  obtain res where r: "calculateCurveLoop dataPoints (i + 1) ?c = Some res" "length res = length dataPoints"
     and f: "\<forall>j. i + 1 \<le> int j \<and> int j < int (length dataPoints) - 1 \<longrightarrow>
            res ! j = fit3 (dataPoints ! (j - 1)) (dataPoints ! j) (dataPoints ! (j + 1))"
     and o: "\<forall>j. int j < i + 1 \<or> int (length dataPoints) - 1 \<le> int j \<longrightarrow> res ! j = ?c ! j"
    by auto
  have "res ! j = fit3 (dataPoints ! (j - 1)) (dataPoints ! j) (dataPoints ! (j + 1))"
    if "i \<le> int j \<and> int j < int (length dataPoints) - 1" for j
  proof (cases "int j = i")
    case True
    then have j: "j = nat i" by simp
    have "res ! j = ?c ! j" using o True by simp
    also have "\<dots> = fit3 (dataPoints ! nat (i - 1)) (dataPoints ! nat i) (dataPoints ! nat (i + 1))"
      using j lt Suc.prems by simp
    also have "\<dots> = fit3 (dataPoints ! (j - 1)) (dataPoints ! j) (dataPoints ! (j + 1))"
      using j Suc.prems(1) by (simp add: nat_diff_distrib nat_add_distrib)
    finally show ?thesis .
  next
    case False
    with that f show ?thesis by simp
  qed
  moreover have "res ! j = curve ! j" if "int j < i \<or> int (length dataPoints) - 1 \<le> int j" for j
  proof -
    have "j \<noteq> nat i" using that lt Suc.prems(1) by linarith
    moreover have "res ! j = ?c ! j" using o that by auto
    ultimately show ?thesis by simp
  qed
  ultimately show ?case using step r by simp
qed

lemma calculateCurve_spec:
  assumes n: "2 \<le> length dataPoints"
  shows "\<exists>curve. calculateCurve dataPoints = Some curve \<and> length curve = length dataPoints
    \<and> curve ! 0 = (let rate = (B (dataPoints ! 1) - B (dataPoints ! 0)) / (A (dataPoints ! 1) - A (dataPoints ! 0))
         in \<lparr>CurvePoint.A = 0, CurvePoint.B = rate, C = B (dataPoints ! 0) - A (dataPoints ! 0) * rate\<rparr>)
    \<and> (\<forall>j. 1 \<le> j \<and> j + 2 \<le> length dataPoints \<longrightarrow>
            curve ! j = fit3 (dataPoints ! (j - 1)) (dataPoints ! j) (dataPoints ! (j + 1)))
    \<and> curve ! (length dataPoints - 1) =
        (let dl = dataPoints ! (length dataPoints - 1); dk = dataPoints ! (length dataPoints - 2);
             rate = (B dl - B dk) / (A dl - A dk)
         in \<lparr>CurvePoint.A = 0, CurvePoint.B = rate, C = B dl - A dk * rate\<rparr>)"
proof -
  let ?n = "length dataPoints"
  let ?r0 = "(B (dataPoints ! 1) - B (dataPoints ! 0)) / (A (dataPoints ! 1) - A (dataPoints ! 0))"
  let ?c0 = "(replicate ?n \<lparr>CurvePoint.A = 0, CurvePoint.B = 0, C = 0\<rparr>)
               [0 := \<lparr>CurvePoint.A = 0, CurvePoint.B = ?r0, C = B (dataPoints ! 0) - A (dataPoints ! 0) * ?r0\<rparr>]"
  let ?dl = "dataPoints ! (?n - 1)" and ?dk = "dataPoints ! (?n - 2)"
  let ?rl = "(B ?dl - B ?dk) / (A ?dl - A ?dk)"
  have len0: "length ?c0 = ?n" by simp
  have ne: "dataPoints \<noteq> []" using n by auto
  from calculateCurveLoop_spec [OF _ len0, of 1]
  obtain res where r: "calculateCurveLoop dataPoints 1 ?c0 = Some res" "length res = ?n"
     and f: "\<forall>j. 1 \<le> int j \<and> int j < int ?n - 1 \<longrightarrow>
            res ! j = fit3 (dataPoints ! (j - 1)) (dataPoints ! j) (dataPoints ! (j + 1))"
     and o: "\<forall>j. int j < 1 \<or> int ?n - 1 \<le> int j \<longrightarrow> res ! j = ?c0 ! j"
    by auto
  let ?curve = "res[?n - 1 := \<lparr>CurvePoint.A = 0, CurvePoint.B = ?rl, C = B ?dl - A ?dk * ?rl\<rparr>]"
  have e: "elemAt dataPoints 1 = Some (dataPoints ! 1)" "elemAt dataPoints 0 = Some (dataPoints ! 0)"
     "elemAt dataPoints (int ?n - 1) = Some ?dl" "elemAt dataPoints (int ?n - 2) = Some ?dk"
    using n by (auto simp add: elemAt_def nat_diff_distrib)
  have "calculateCurve dataPoints = Some ?curve"
    using n r e ne by (simp add: calculateCurve_def Let_def setAt_def nat_diff_distrib)
  moreover have "length ?curve = ?n" using r by simp
  moreover have "?curve ! 0 = \<lparr>CurvePoint.A = 0, CurvePoint.B = ?r0, C = B (dataPoints ! 0) - A (dataPoints ! 0) * ?r0\<rparr>"
  proof -
    have "0 \<noteq> ?n - 1" using n by linarith
    then have "?curve ! 0 = res ! 0" by simp
    also have "\<dots> = ?c0 ! 0" using o by simp
    finally show ?thesis using ne by simp
  qed
  moreover have "?curve ! j = fit3 (dataPoints ! (j - 1)) (dataPoints ! j) (dataPoints ! (j + 1))"
    if "1 \<le> j \<and> j + 2 \<le> ?n" for j
  proof -
    have "j \<noteq> ?n - 1" using that by linarith
    then have "?curve ! j = res ! j" by simp
    moreover have "1 \<le> int j \<and> int j < int ?n - 1" using that by linarith
    ultimately show ?thesis using f by simp
  qed
  moreover have "?curve ! (?n - 1) = \<lparr>CurvePoint.A = 0, CurvePoint.B = ?rl, C = B ?dl - A ?dk * ?rl\<rparr>"
    using r n by simp
  ultimately show ?thesis by (simp add: Let_def)
qed

section \<open>Interpolation by one segment\<close>


lemma fit3_denominator:
  fixes x1 x2 x3 :: real
  shows "(x3 * x3 - x1 * x1) * (x2 - x1) - (x2 * x2 - x1 * x1) * (x3 - x1)
       = (x3 - x1) * (x2 - x1) * (x3 - x2)"
  by (simp add: algebra_simps)

lemma fit3_at_x1: "evalSegment (fit3 p1 p2 p3) (A p1) = B p1"
  by (simp add: fit3_def evalSegment_def Let_def algebra_simps)

lemma fit3_at_x2:
  assumes "A p1 \<noteq> A p2"
  shows "evalSegment (fit3 p1 p2 p3) (A p2) = B p2"
proof -
  define a where "a = CurvePoint.A (fit3 p1 p2 p3)"
  define b where "b = CurvePoint.B (fit3 p1 p2 p3)"
  have b: "b = (B p2 - B p1 - a * (A p2 * A p2 - A p1 * A p1)) / (A p2 - A p1)"
    by (simp add: a_def b_def fit3_def Let_def)
  have c: "C (fit3 p1 p2 p3) = B p1 - (a * A p1 * A p1 + b * A p1)"
    by (simp add: a_def b_def fit3_def Let_def)
  have "b * (A p2 - A p1) = B p2 - B p1 - a * (A p2 * A p2 - A p1 * A p1)"
    using assms b by simp
  then have "B p1 + a * (A p2 * A p2 - A p1 * A p1) + b * (A p2 - A p1) = B p2" by simp
  then show ?thesis
    unfolding evalSegment_def c a_def [symmetric] b_def [symmetric] by (simp add: algebra_simps)
qed

lemma fit3_at_x3:
  assumes "A p1 \<noteq> A p2" and "A p1 \<noteq> A p3" and "A p2 \<noteq> A p3"
  shows "evalSegment (fit3 p1 p2 p3) (A p3) = B p3"
proof -
  define x1 x2 x3 y1 y2 y3 where xy: "x1 = A p1" "x2 = A p2" "x3 = A p3" "y1 = B p1" "y2 = B p2" "y3 = B p3"
  define D where "D = (x3 * x3 - x1 * x1) * (x2 - x1) - (x2 * x2 - x1 * x1) * (x3 - x1)"
  define a where "a = CurvePoint.A (fit3 p1 p2 p3)"
  define b where "b = CurvePoint.B (fit3 p1 p2 p3)"
  have D0: "D \<noteq> 0" unfolding D_def fit3_denominator using assms xy by simp
  have a: "a = ((y3 - y1) * (x2 - x1) - (y2 - y1) * (x3 - x1)) / D"
    by (simp add: a_def fit3_def Let_def xy D_def)
  have b: "b = (y2 - y1 - a * (x2 * x2 - x1 * x1)) / (x2 - x1)"
    by (simp add: a_def b_def fit3_def Let_def xy)
  have c: "C (fit3 p1 p2 p3) = y1 - (a * x1 * x1 + b * x1)"
    by (simp add: a_def b_def fit3_def Let_def xy)
  have aD: "a * D = (y3 - y1) * (x2 - x1) - (y2 - y1) * (x3 - x1)" using a D0 by simp
  have bd: "b * (x2 - x1) = y2 - y1 - a * (x2 * x2 - x1 * x1)" using b assms xy by simp
  have "(y1 + a * (x3 * x3 - x1 * x1) + b * (x3 - x1)) * (x2 - x1)
      = y1 * (x2 - x1) + a * (x3 * x3 - x1 * x1) * (x2 - x1) + (b * (x2 - x1)) * (x3 - x1)"
    by (simp add: algebra_simps)
  also have "\<dots> = y1 * (x2 - x1) + a * D + (y2 - y1) * (x3 - x1)"
    unfolding bd D_def by (simp add: algebra_simps)
  also have "\<dots> = y3 * (x2 - x1)" unfolding aD by (simp add: algebra_simps)
  finally have "y1 + a * (x3 * x3 - x1 * x1) + b * (x3 - x1) = y3" using assms xy by simp
  then show ?thesis
    unfolding evalSegment_def c a_def [symmetric] b_def [symmetric] xy [symmetric]
    by (simp add: algebra_simps)
qed

lemma quadratic_unique:
  fixes a b c a' b' c' x1 x2 x3 :: real
  assumes d: "x1 \<noteq> x2" "x1 \<noteq> x3" "x2 \<noteq> x3"
    and e1: "c + x1 * (b + a * x1) = c' + x1 * (b' + a' * x1)"
    and e2: "c + x2 * (b + a * x2) = c' + x2 * (b' + a' * x2)"
    and e3: "c + x3 * (b + a * x3) = c' + x3 * (b' + a' * x3)"
  shows "a = a' \<and> b = b' \<and> c = c'"
proof -
  define da db dc where dd: "da = a - a'" "db = b - b'" "dc = c - c'"
  have z1: "dc + x1 * (db + da * x1) = 0" using e1 by (simp add: dd algebra_simps)
  have z2: "dc + x2 * (db + da * x2) = 0" using e2 by (simp add: dd algebra_simps)
  have z3: "dc + x3 * (db + da * x3) = 0" using e3 by (simp add: dd algebra_simps)
  have "(x2 - x1) * (db + da * (x2 + x1)) = 0" using z1 z2 by (simp add: algebra_simps)
  then have s12: "db + da * (x2 + x1) = 0" using d by simp
  have "(x3 - x1) * (db + da * (x3 + x1)) = 0" using z1 z3 by (simp add: algebra_simps)
  then have s13: "db + da * (x3 + x1) = 0" using d by simp
  have "da * (x3 - x2) = (db + da * (x3 + x1)) - (db + da * (x2 + x1))" by (simp add: algebra_simps)
  then have "da * (x3 - x2) = 0" unfolding s12 s13 by simp
  then have "da = 0" using d by simp
  then have "db = 0" using s12 by simp
  then have "dc = 0" using z1 \<open>da = 0\<close> by simp
  with \<open>da = 0\<close> \<open>db = 0\<close> show ?thesis by (simp add: dd)
qed

section \<open>Selection outside the table and at the samples\<close>


lemma increasing_le: "increasing ps \<Longrightarrow> i \<le> j \<Longrightarrow> j < length ps \<Longrightarrow> A (ps ! i) \<le> A (ps ! j)"
  using increasing_less [of ps i j] by (cases "i = j") auto

lemma selectSegment_below:
  assumes inc: "increasing data" and n: "2 \<le> length curve" and len: "length data = length curve"
    and below: "mach < A (data ! 0)"
  shows "selectSegment data curve mach = Some 0"
proof -
  from selectSegment_char [OF n len, of mach]
  obtain lo hi where s: "selectSegment data curve mach =
             Some (if (A (data ! nat hi) - mach) > (mach - A (data ! nat lo)) then lo else hi)"
    and b: "0 \<le> lo" "lo \<le> hi" "hi \<le> int (length curve) - 2"
    and l: "lo = 0 \<or> A (data ! nat lo) < mach"
    by blast
  have "A (data ! 0) \<le> A (data ! nat lo)" "A (data ! 0) \<le> A (data ! nat hi)"
    using increasing_le [OF inc, of 0] b len by simp_all
  with below l have "lo = 0" "mach - A (data ! nat lo) < A (data ! nat hi) - mach" by auto
  with s show ?thesis by simp
qed

lemma selectSegment_above:
  assumes inc: "increasing data" and n: "2 \<le> length curve" and len: "length data = length curve"
    and above: "A (data ! (length data - 1)) < mach"
  shows "selectSegment data curve mach = Some (int (length curve) - 2)"
proof -
  from selectSegment_char [OF n len, of mach]
  obtain lo hi where s: "selectSegment data curve mach =
             Some (if (A (data ! nat hi) - mach) > (mach - A (data ! nat lo)) then lo else hi)"
    and b: "0 \<le> lo" "lo \<le> hi" "hi \<le> int (length curve) - 2"
    and h: "hi = int (length curve) - 2 \<or> \<not> A (data ! nat hi) < mach"
    by blast
  have "A (data ! nat lo) \<le> A (data ! (length data - 1))" "A (data ! nat hi) \<le> A (data ! (length data - 1))"
    using increasing_le [OF inc, of _ "length data - 1"] b len n by simp_all
  with above h have "hi = int (length curve) - 2" "\<not> mach - A (data ! nat lo) < A (data ! nat hi) - mach"
    by auto
  with s show ?thesis by simp
qed

lemma first_segment_at_nodes:
  assumes "A p0 \<noteq> A p1" and "rate = (B p1 - B p0) / (A p1 - A p0)"
  shows "evalSegment \<lparr>CurvePoint.A = 0, CurvePoint.B = rate, C = B p0 - A p0 * rate\<rparr> (A p0) = B p0"
    and "evalSegment \<lparr>CurvePoint.A = 0, CurvePoint.B = rate, C = B p0 - A p0 * rate\<rparr> (A p1) = B p1"
proof -
  show "evalSegment \<lparr>CurvePoint.A = 0, CurvePoint.B = rate, C = B p0 - A p0 * rate\<rparr> (A p0) = B p0"
    by (simp add: evalSegment_def)
  have "rate * (A p1 - A p0) = B p1 - B p0" using assms by simp
  then have "B p0 + rate * (A p1 - A p0) = B p1" by simp
  then show "evalSegment \<lparr>CurvePoint.A = 0, CurvePoint.B = rate, C = B p0 - A p0 * rate\<rparr> (A p1) = B p1"
    by (simp add: evalSegment_def algebra_simps)
qed

lemma last_segment_at_nodes:
  assumes "A pk \<noteq> A pl" and "rate = (B pl - B pk) / (A pl - A pk)"
  shows "evalSegment \<lparr>CurvePoint.A = 0, CurvePoint.B = rate, C = B pl - A pk * rate\<rparr> (A pk) = B pl"
    and "evalSegment \<lparr>CurvePoint.A = 0, CurvePoint.B = rate, C = B pl - A pk * rate\<rparr> (A pl) = 2 * B pl - B pk"
proof -
  show "evalSegment \<lparr>CurvePoint.A = 0, CurvePoint.B = rate, C = B pl - A pk * rate\<rparr> (A pk) = B pl"
    by (simp add: evalSegment_def)
  have "rate * (A pl - A pk) = B pl - B pk" using assms by simp
  then have "B pl + rate * (A pl - A pk) = 2 * B pl - B pk" by simp
  then show "evalSegment \<lparr>CurvePoint.A = 0, CurvePoint.B = rate, C = B pl - A pk * rate\<rparr> (A pl) = 2 * B pl - B pk"
    by (simp add: evalSegment_def algebra_simps)
qed

lemma calculateByCurve_node:
  assumes inc: "increasing data" and n: "2 \<le> length data"
    and curve: "calculateCurve data = Some curve" and i: "i < length data"
  shows "calculateByCurve data curve (A (data ! i)) = Some (B (data ! i))"
proof -
  let ?n = "length data"
  from calculateCurve_spec [OF n] curve
  have len: "length curve = ?n"
    and c0: "curve ! 0 = (let rate = (B (data ! 1) - B (data ! 0)) / (A (data ! 1) - A (data ! 0))
         in \<lparr>CurvePoint.A = 0, CurvePoint.B = rate, C = B (data ! 0) - A (data ! 0) * rate\<rparr>)"
    and cj: "\<forall>j. 1 \<le> j \<and> j + 2 \<le> ?n \<longrightarrow> curve ! j = fit3 (data ! (j - 1)) (data ! j) (data ! (j + 1))"
    by auto
  have n': "2 \<le> length curve" and len': "length data = length curve" using n len by simp_all
  have sel: "selectSegment data curve (A (data ! i)) = Some (min (int i) (int (length curve) - 2))"
    using selectSegment_node [OF inc n' len' i] .
  from calculateByCurve_eval [OF n' len', of "A (data ! i)"] sel
  have val: "calculateByCurve data curve (A (data ! i)) =
      Some (evalSegment (curve ! nat (min (int i) (int (length curve) - 2))) (A (data ! i)))"
    by auto
  have d01: "A (data ! 0) \<noteq> A (data ! 1)" using increasing_less [OF inc, of 0 1] n by simp
  consider (first) "i = 0" | (two) "i = 1" "?n = 2" | (inner) "1 \<le> i" "i + 2 \<le> ?n" | (last) "i + 1 = ?n" "3 \<le> ?n"
    using i n by linarith
  then have "evalSegment (curve ! nat (min (int i) (int (length curve) - 2))) (A (data ! i)) = B (data ! i)"
  proof cases
    case first
    then have m: "nat (min (int i) (int (length curve) - 2)) = 0" by simp
    show ?thesis unfolding m using first c0 first_segment_at_nodes(1) [OF d01 refl] by (simp add: Let_def)
  next
    case two
    then have m: "nat (min (int i) (int (length curve) - 2)) = 0" using len by simp
    show ?thesis unfolding m using two c0 first_segment_at_nodes(2) [OF d01 refl] by (simp add: Let_def)
  next
    case inner
    then have m: "nat (min (int i) (int (length curve) - 2)) = i" using len by linarith
    have "A (data ! (i - 1)) < A (data ! i)" using increasing_less [OF inc, of "i - 1" i] inner i by simp
    then show ?thesis unfolding m using cj inner fit3_at_x2 [of "data ! (i - 1)" "data ! i" "data ! (i + 1)"] by simp
  next
    case last
    then have m: "nat (min (int i) (int (length curve) - 2)) = i - 1" using len by linarith
    have "A (data ! (i - 2)) < A (data ! (i - 1))" "A (data ! (i - 1)) < A (data ! i)"
      "A (data ! (i - 2)) < A (data ! i)"
      using increasing_less [OF inc] last i by simp_all
    moreover have "curve ! (i - 1) = fit3 (data ! (i - 2)) (data ! (i - 1)) (data ! i)"
      using cj [rule_format, of "i - 1"] last by (simp add: numeral_2_eq_2 Suc_diff_Suc)
    ultimately show ?thesis unfolding m using fit3_at_x3 [of "data ! (i - 2)" "data ! (i - 1)" "data ! i"] by simp
  qed
  with val show ?thesis by simp
qed

lemma selectSegment_beyond:
  assumes inc: "increasing data" and n: "2 \<le> length curve" and len: "length data = length curve"
    and above: "A (data ! (length data - 2)) < mach"
  shows "selectSegment data curve mach = Some (int (length curve) - 2)"
proof -
  from selectSegment_char [OF n len, of mach]
  obtain lo hi where s: "selectSegment data curve mach =
             Some (if (A (data ! nat hi) - mach) > (mach - A (data ! nat lo)) then lo else hi)"
    and b: "0 \<le> lo" "lo \<le> hi" "hi \<le> int (length curve) - 2"
    and h: "hi = int (length curve) - 2 \<or> \<not> A (data ! nat hi) < mach"
    by blast
  have "nat lo \<le> length data - 2" "nat hi \<le> length data - 2" "length data - 2 < length data"
    using b len n by linarith+
  then have "A (data ! nat lo) \<le> A (data ! (length data - 2))" "A (data ! nat hi) \<le> A (data ! (length data - 2))"
    using increasing_le [OF inc] by blast+
  with above h have "hi = int (length curve) - 2" "\<not> mach - A (data ! nat lo) < A (data ! nat hi) - mach"
    by auto
  with s show ?thesis by simp
qed

lemma selectSegment_ignores_curve:
  "length curve' = length curve \<Longrightarrow> selectSegment data curve' mach = selectSegment data curve mach"
  by (simp add: selectSegment_def)

section \<open>Facts about the reference tables\<close>

lemma g1Table_length: "length g1Table = 79"
  by (simp add: g1Table_def)

lemma g7Table_length: "length g7Table = 84"
  by (simp add: g7Table_def)

lemma g2Table_length: "length g2Table = 85"
  by (simp add: g2Table_def)

lemma g5Table_length: "length g5Table = 76"
  by (simp add: g5Table_def)

lemma g6Table_length: "length g6Table = 79"
  by (simp add: g6Table_def)

lemma g8Table_length: "length g8Table = 78"
  by (simp add: g8Table_def)

lemma gITable_length: "length gITable = 81"
  by (simp add: gITable_def)

lemma gSTable_length: "length gSTable = 81"
  by (simp add: gSTable_def gITable_length)

lemma g1Table_increasing: "increasing g1Table"
  by (simp add: g1Table_def)

lemma g7Table_increasing: "increasing g7Table"
  by (simp add: g7Table_def)

lemma g2Table_increasing: "increasing g2Table"
  by (simp add: g2Table_def)

lemma g5Table_increasing: "increasing g5Table"
  by (simp add: g5Table_def)

lemma g6Table_increasing: "increasing g6Table"
  by (simp add: g6Table_def)

lemma g8Table_increasing: "increasing g8Table"
  by (simp add: g8Table_def)

lemma gITable_increasing: "increasing gITable"
  by (simp add: gITable_def)

lemma gSTable_increasing: "increasing gSTable"
  by (simp add: gSTable_def gITable_increasing)

lemma referenceTable_cases:
  assumes "T \<in> {g1Table, g2Table, g5Table, g6Table, g7Table, g8Table, gITable, gSTable}"
  shows "increasing T \<and> 2 \<le> length T"
proof -
  from assms consider "T = g1Table" | "T = g2Table" | "T = g5Table" | "T = g6Table"
    | "T = g7Table" | "T = g8Table" | "T = gITable" | "T = gSTable" by auto
  then show ?thesis
  proof cases
    case 1 then show ?thesis by (simp add: g1Table_increasing g1Table_length)
  next
    case 2 then show ?thesis by (simp add: g2Table_increasing g2Table_length)
  next
    case 3 then show ?thesis by (simp add: g5Table_increasing g5Table_length)
  next
    case 4 then show ?thesis by (simp add: g6Table_increasing g6Table_length)
  next
    case 5 then show ?thesis by (simp add: g7Table_increasing g7Table_length)
  next
    case 6 then show ?thesis by (simp add: g8Table_increasing g8Table_length)
  next
    case 7 then show ?thesis by (simp add: gITable_increasing gITable_length)
  next
    case 8 then show ?thesis by (simp add: gSTable_increasing gSTable_length)
  qed
qed

lemma referenceTable_total:
  assumes "T \<in> {g1Table, g2Table, g5Table, g6Table, g7Table, g8Table, gITable, gSTable}"
  shows "\<exists>curve. calculateCurve T = Some curve \<and> length curve = length T
     \<and> (\<forall>mach. \<exists>y. calculateByCurve T curve mach = Some y)"
proof -
  have n: "2 \<le> length T" using referenceTable_cases [OF assms] by simp
  from calculateCurve_spec [OF n]
  obtain curve where c: "calculateCurve T = Some curve" "length curve = length T" by blast
  then have "2 \<le> length curve" "length T = length curve" using n by simp_all
  from calculateByCurve_eval [OF this] have "\<exists>y. calculateByCurve T curve mach = Some y" for mach
    by blast
  with c show ?thesis by blast
qed

lemma dragFunctionFactory_family:
  assumes "dragFunctionFactory t = Inr f"
  shows "\<exists>T. (t, T) \<in> {(DragTableG1, g1Table), (DragTableG2, g2Table), (DragTableG5, g5Table),
              (DragTableG6, g6Table), (DragTableG7, g7Table), (DragTableG8, g8Table),
              (DragTableGI, gITable), (DragTableGS, gSTable)}
     \<and> f = (\<lambda>mach. do { curve \<leftarrow> calculateCurve T; calculateByCurve T curve mach })"
  using assms
  by (auto simp add: dragFunctionFactory_def g1Curve_def g2Curve_def g5Curve_def g6Curve_def
      g7Curve_def g8Curve_def gICurve_def gSCurve_def split: if_splits)

lemma byte_le_8_cases:
  fixes t :: byte
  assumes "t \<le> 8"
  shows "t \<in> {0, 1, 2, 3, 4, 5, 6, 7, 8}"
proof -
  from assms have "unat t \<le> 8" by (simp add: word_le_nat_alt)
  then have "unat t \<in> {0, 1, 2, 3, 4, 5, 6, 7, 8}" by auto
  then have "word_of_nat (unat t) \<in> (word_of_nat ` {0, 1, 2, 3, 4, 5, 6, 7, 8} :: byte set)"
    by (rule imageI)
  then show ?thesis by simp
qed

lemma CreateBallisticCoefficient_outcomes:
  "CreateBallisticCoefficient v t =
     (if t = 0 then Inl (Errorf ''ballisticCoefficient: Unknown drag table %d'' [unat t])
      else if v \<le> 0 then
        Inl (Errorf ''ballisticCoefficient: Drag coefficient must be greater than zero'' [])
      else if 8 < t then Inl (Panic ''unknown drag table type'')
      else Inr \<lparr>value = v, table = t, drag = projr (dragFunctionFactory t)\<rparr>)"
proof -
  have z: "t < DragTableG1 \<longleftrightarrow> t = 0" by (simp add: DragTableG1_def word_less_1)
  have p: "dragFunctionFactory t = Inl (Panic ''unknown drag table type'')" if "8 < t"
    using that by (auto simp add: dragFunctionFactory_def DragTableG1_def
      DragTableG2_def DragTableG5_def DragTableG6_def DragTableG7_def DragTableG8_def
      DragTableGI_def DragTableGS_def)
  have k: "\<exists>f. dragFunctionFactory t = Inr f" if "\<not> 8 < t" "t \<noteq> 0"
  proof -
    from that have "t \<in> {1, 2, 3, 4, 5, 6, 7, 8}" using byte_le_8_cases [of t] by auto
    then show ?thesis by (auto simp add: dragFunctionFactory_def DragTableG1_def
      DragTableG2_def DragTableG5_def DragTableG6_def DragTableG7_def DragTableG8_def
      DragTableGI_def DragTableGS_def)
  qed
  show ?thesis
  proof (cases "t = 0 \<or> v \<le> 0")
    case True
    then show ?thesis unfolding CreateBallisticCoefficient_def z by auto
  next
    case False
    show ?thesis
    proof (cases "8 < t")
      case True
      with False p show ?thesis unfolding CreateBallisticCoefficient_def z by simp
    next
      case le: False
      with False k obtain f where "dragFunctionFactory t = Inr f" by blast
      with False le show ?thesis unfolding CreateBallisticCoefficient_def z by simp
    qed
  qed
qed

lemma tables_first_sample:
  "B (g1Table ! 0) = 0.2629" "B (g2Table ! 0) = 0.2303" "B (g5Table ! 0) = 0.1710"
  "B (g6Table ! 0) = 0.2617" "B (g7Table ! 0) = 0.1198" "B (g8Table ! 0) = 0.2105"
  "B (gITable ! 0) = 0.2282"
  by (simp_all add: g1Table_def g2Table_def g5Table_def g6Table_def g7Table_def g8Table_def gITable_def)

lemma interior_segment_nodes:
  assumes inc: "increasing data" and c: "calculateCurve data = Some curve"
    and j: "1 \<le> j" "j + 2 \<le> length data"
  shows "evalSegment (curve ! j) (A (data ! (j - 1))) = B (data ! (j - 1))"
    and "evalSegment (curve ! j) (A (data ! j)) = B (data ! j)"
    and "evalSegment (curve ! j) (A (data ! (j + 1))) = B (data ! (j + 1))"
proof -
  let ?p1 = "data ! (j - 1)" and ?p2 = "data ! j" and ?p3 = "data ! (j + 1)"
  have n: "2 \<le> length data" using j by simp
  have cj: "curve ! j = fit3 ?p1 ?p2 ?p3" using calculateCurve_spec [OF n] c j by auto
  have "A ?p1 < A ?p2" "A ?p2 < A ?p3" "A ?p1 < A ?p3"
    using increasing_less [OF inc] j by simp_all
  then have ne: "A ?p1 \<noteq> A ?p2" "A ?p1 \<noteq> A ?p3" "A ?p2 \<noteq> A ?p3" by simp_all
  show "evalSegment (curve ! j) (A ?p1) = B ?p1" unfolding cj by (rule fit3_at_x1)
  show "evalSegment (curve ! j) (A ?p2) = B ?p2" unfolding cj by (rule fit3_at_x2 [OF ne(1)])
  show "evalSegment (curve ! j) (A ?p3) = B ?p3" unfolding cj by (rule fit3_at_x3 [OF ne])
qed

lemma first_segment_nodes:
  assumes inc: "increasing data" and c: "calculateCurve data = Some curve" and n: "2 \<le> length data"
  shows "evalSegment (curve ! 0) (A (data ! 0)) = B (data ! 0)"
    and "evalSegment (curve ! 0) (A (data ! 1)) = B (data ! 1)"
proof -
  have d01: "A (data ! 0) \<noteq> A (data ! 1)" using increasing_less [OF inc, of 0 1] n by simp
  have c0: "curve ! 0 = \<lparr>CurvePoint.A = 0,
      CurvePoint.B = (B (data ! 1) - B (data ! 0)) / (A (data ! 1) - A (data ! 0)),
      C = B (data ! 0) - A (data ! 0) * ((B (data ! 1) - B (data ! 0)) / (A (data ! 1) - A (data ! 0)))\<rparr>"
    using calculateCurve_spec [OF n] c by (auto simp add: Let_def)
  show "evalSegment (curve ! 0) (A (data ! 0)) = B (data ! 0)"
    unfolding c0 by (rule first_segment_at_nodes(1) [OF d01 refl])
  show "evalSegment (curve ! 0) (A (data ! 1)) = B (data ! 1)"
    unfolding c0 by (rule first_segment_at_nodes(2) [OF d01 refl])
qed

lemma last_segment_nodes:
  assumes inc: "increasing data" and c: "calculateCurve data = Some curve" and n: "2 \<le> length data"
  shows "evalSegment (curve ! (length data - 1)) (A (data ! (length data - 2))) = B (data ! (length data - 1))"
    and "evalSegment (curve ! (length data - 1)) (A (data ! (length data - 1)))
          = 2 * B (data ! (length data - 1)) - B (data ! (length data - 2))"
proof -
  let ?dl = "data ! (length data - 1)" and ?dk = "data ! (length data - 2)"
  have "length data - 2 < length data - 1" "length data - 1 < length data" using n by linarith+
  then have "A ?dk < A ?dl" by (rule increasing_less [OF inc])
  then have dkl: "A ?dk \<noteq> A ?dl" by simp
  have cl: "curve ! (length data - 1) = \<lparr>CurvePoint.A = 0,
      CurvePoint.B = (B ?dl - B ?dk) / (A ?dl - A ?dk),
      C = B ?dl - A ?dk * ((B ?dl - B ?dk) / (A ?dl - A ?dk))\<rparr>"
    using calculateCurve_spec [OF n] c by (auto simp add: Let_def)
  show "evalSegment (curve ! (length data - 1)) (A ?dk) = B ?dl"
    unfolding cl by (rule last_segment_at_nodes(1) [OF dkl refl])
  show "evalSegment (curve ! (length data - 1)) (A ?dl) = 2 * B ?dl - B ?dk"
    unfolding cl by (rule last_segment_at_nodes(2) [OF dkl refl])
qed

lemma adjacent_segments_agree:
  assumes inc: "increasing data" and c: "calculateCurve data = Some curve"
    and i: "i + 3 \<le> length data"
  shows "evalSegment (curve ! i) (A (data ! i)) = evalSegment (curve ! (i + 1)) (A (data ! i))"
    and "evalSegment (curve ! i) (A (data ! (i + 1))) = evalSegment (curve ! (i + 1)) (A (data ! (i + 1)))"
proof -
  have n: "2 \<le> length data" using i by simp
  have next1: "evalSegment (curve ! (i + 1)) (A (data ! i)) = B (data ! i)"
    and next2: "evalSegment (curve ! (i + 1)) (A (data ! (i + 1))) = B (data ! (i + 1))"
    using interior_segment_nodes(1,2) [OF inc c, of "i + 1"] i by simp_all
  have "evalSegment (curve ! i) (A (data ! i)) = B (data ! i)
      \<and> evalSegment (curve ! i) (A (data ! (i + 1))) = B (data ! (i + 1))"
  proof (cases "i = 0")
    case True
    then show ?thesis using first_segment_nodes [OF inc c n] by simp
  next
    case False
    then show ?thesis using interior_segment_nodes(2,3) [OF inc c, of i] i by simp
  qed
  then show "evalSegment (curve ! i) (A (data ! i)) = evalSegment (curve ! (i + 1)) (A (data ! i))"
    and "evalSegment (curve ! i) (A (data ! (i + 1))) = evalSegment (curve ! (i + 1)) (A (data ! (i + 1)))"
    using next1 next2 by simp_all
qed

lemma g1Table_last_samples:
  "g1Table ! 77 = \<lparr>A = 4.80, B = 0.4990\<rparr>" "g1Table ! 78 = \<lparr>A = 5.00, B = 0.4988\<rparr>"
  by (simp_all add: g1Table_def)

section \<open>The claims\<close>

text \<open>
  C1. The claim: \<open>CreateBallisticCoefficient\<close> returns an error value, and does not crash,
  whenever the value is not positive or the table identifier is none of the eight known ones.
  The code at the value \<open>1\<close> and the table identifier \<open>9\<close>: it passes both checks
  (\<open>9 < DragTableG1\<close> is false, \<open>1 \<le> 0\<close> is false) and \<open>dragFunctionFactory\<close> panics.
\<close>

theorem CreateBallisticCoefficient_table_9_panics:
  "CreateBallisticCoefficient 1 9 = Inl (Panic ''unknown drag table type'')"
  by (simp add: CreateBallisticCoefficient_def dragFunctionFactory_def DragTableG1_def
      DragTableG2_def DragTableG5_def DragTableG6_def DragTableG7_def DragTableG8_def
      DragTableGI_def DragTableGS_def)

text \<open>
  C2. For each of the eight reference tables, fitting the table with \<open>calculateCurve\<close> and
  evaluating \<open>calculateByCurve\<close> at the Mach value of any sample, the first and the last
  included, returns that sample's drag coefficient to within \<open>1e-9\<close> (in exact arithmetic
  the two are equal).
\<close>

theorem calculateByCurve_reproduces_samples:
  assumes "T \<in> {g1Table, g2Table, g5Table, g6Table, g7Table, g8Table, gITable, gSTable}"
    and "i < length T"
  shows "\<exists>curve y. calculateCurve T = Some curve \<and> length curve = length T
     \<and> calculateByCurve T curve (A (T ! i)) = Some y \<and> \<bar>y - B (T ! i)\<bar> \<le> 1 / 10 ^ 9"
proof -
  have inc: "increasing T" and n: "2 \<le> length T" using referenceTable_cases [OF assms(1)] by simp_all
  from calculateCurve_spec [OF n]
  obtain curve where c: "calculateCurve T = Some curve" "length curve = length T" by blast
  have "calculateByCurve T curve (A (T ! i)) = Some (B (T ! i))"
    using calculateByCurve_node [OF inc n c(1) assms(2)] .
  with c show ?thesis by simp
qed

theorem calculateByCurve_reproduces_samples_witness:
  "g1Table \<in> {g1Table, g2Table, g5Table, g6Table, g7Table, g8Table, gITable, gSTable}
   \<and> 78 < length g1Table
   \<and> (\<exists>curve y. calculateCurve g1Table = Some curve \<and> length curve = length g1Table
     \<and> calculateByCurve g1Table curve (A (g1Table ! 78)) = Some y \<and> \<bar>y - B (g1Table ! 78)\<bar> \<le> 1 / 10 ^ 9)"
proof -
  have h1: "g1Table \<in> {g1Table, g2Table, g5Table, g6Table, g7Table, g8Table, gITable, gSTable}"
    by simp
  have h2: "78 < length g1Table" by (simp add: g1Table_length)
  from calculateByCurve_reproduces_samples [OF h1 h2] h1 h2 show ?thesis by blast
qed

text \<open>
  C3. The claim: any two adjacent segments of the fitted curve agree at the Mach value of the
  sample they share, the last two segments included. The code on \<open>g1Table\<close> (79 samples):
  at the Mach value of sample 77 the segments 77 and 78 give \<open>0.4990\<close> and \<open>0.4988\<close>, and at
  the Mach value of sample 78 they give \<open>0.4988\<close> and \<open>0.4986\<close>.
\<close>

theorem g1_last_boundary_discontinuous:
  "\<exists>curve. calculateCurve g1Table = Some curve \<and> length curve = 79
    \<and> evalSegment (curve ! 77) (A (g1Table ! 77)) = 0.4990
    \<and> evalSegment (curve ! 78) (A (g1Table ! 77)) = 0.4988
    \<and> evalSegment (curve ! 77) (A (g1Table ! 78)) = 0.4988
    \<and> evalSegment (curve ! 78) (A (g1Table ! 78)) = 0.4986"
proof -
  have n: "2 \<le> length g1Table" by (simp add: g1Table_length)
  from calculateCurve_spec [OF n]
  obtain curve where c: "calculateCurve g1Table = Some curve" "length curve = length g1Table" by blast
  have "evalSegment (curve ! 77) (A (g1Table ! 77)) = 0.4990"
    "evalSegment (curve ! 77) (A (g1Table ! 78)) = 0.4988"
    using interior_segment_nodes(2,3) [OF g1Table_increasing c(1), of 77]
    by (simp_all add: g1Table_length g1Table_last_samples)
  moreover have "evalSegment (curve ! 78) (A (g1Table ! 77)) = 0.4988"
    "evalSegment (curve ! 78) (A (g1Table ! 78)) = 0.4986"
    using last_segment_nodes [OF g1Table_increasing c(1) n]
    by (simp_all add: g1Table_length g1Table_last_samples)
  ultimately show ?thesis using c by (simp add: g1Table_length)
qed

text \<open>
  C4. For every ballistic coefficient \<open>bc\<close> that \<open>CreateBallisticCoefficient\<close> builds from a
  value \<open>v\<close> and a table identifier \<open>t\<close>, \<open>v\<close> is positive and the drag function of \<open>bc\<close> is
  the evaluator of the family \<open>t\<close> names: at every Mach number it is \<open>calculateByCurve\<close> on
  that family's own table and on the curve \<open>calculateCurve\<close> fits to that table. For every
  Mach number \<open>m\<close> it returns a value \<open>d\<close>, and \<open>Drag bc m\<close> is \<open>d * 2.08551e-4 / v\<close>.
\<close>

theorem Drag_formula:
  assumes "CreateBallisticCoefficient v t = Inr bc"
  shows "0 < v \<and> (\<exists>dragFn T curve d. dragFunctionFactory t = Inr dragFn \<and> drag bc = dragFn
     \<and> (t, T) \<in> {(DragTableG1, g1Table), (DragTableG2, g2Table), (DragTableG5, g5Table),
              (DragTableG6, g6Table), (DragTableG7, g7Table), (DragTableG8, g8Table),
              (DragTableGI, gITable), (DragTableGS, gSTable)}
     \<and> calculateCurve T = Some curve
     \<and> (\<forall>mach. dragFn mach = calculateByCurve T curve mach)
     \<and> dragFn m = Some d \<and> Drag bc m = Some (d * (2.08551 / 10 ^ 4) / v))"
proof -
  from assms have v: "0 < v" by (auto simp add: CreateBallisticCoefficient_def split: if_splits)
  from assms obtain dragFn where f: "dragFunctionFactory t = Inr dragFn"
    and bc: "bc = \<lparr>value = v, table = t, drag = dragFn\<rparr>"
    by (auto simp add: CreateBallisticCoefficient_def split: if_splits sum.splits)
  from dragFunctionFactory_family [OF f]
  obtain T where tT: "(t, T) \<in> {(DragTableG1, g1Table), (DragTableG2, g2Table), (DragTableG5, g5Table),
              (DragTableG6, g6Table), (DragTableG7, g7Table), (DragTableG8, g8Table),
              (DragTableGI, gITable), (DragTableGS, gSTable)}"
     and fT: "dragFn = (\<lambda>mach. do { curve \<leftarrow> calculateCurve T; calculateByCurve T curve mach })"
    by blast
  from tT have T: "T \<in> {g1Table, g2Table, g5Table, g6Table, g7Table, g8Table, gITable, gSTable}"
    by auto
  from referenceTable_total [OF T]
  obtain curve where c: "calculateCurve T = Some curve"
    and tot: "\<forall>mach. \<exists>y. calculateByCurve T curve mach = Some y" by blast
  have ev: "\<forall>mach. dragFn mach = calculateByCurve T curve mach" unfolding fT using c by simp
  from tot ev obtain d where d: "dragFn m = Some d" by metis
  have "Drag bc m = Some (d * (2.08551 / 10 ^ 4) / v)" using d bc by (simp add: Drag_def)
  with v f bc tT c ev d show ?thesis by auto
qed

theorem Drag_formula_witness:
  "CreateBallisticCoefficient 0.223 DragTableG7 =
     Inr \<lparr>value = 0.223, table = DragTableG7,
          drag = (\<lambda>mach. do { curve \<leftarrow> g7Curve; calculateByCurve g7Table curve mach })\<rparr>
   \<and> 0 < (0.223 :: real)
   \<and> Drag \<lparr>value = 0.223, table = DragTableG7,
          drag = (\<lambda>mach. do { curve \<leftarrow> g7Curve; calculateByCurve g7Table curve mach })\<rparr> 0
       = Some (0.1198 * (2.08551 / 10 ^ 4) / 0.223)"
proof -
  let ?bc = "\<lparr>value = 0.223, table = DragTableG7,
          drag = (\<lambda>mach. do { curve \<leftarrow> g7Curve; calculateByCurve g7Table curve mach })\<rparr>"
  have h: "CreateBallisticCoefficient 0.223 DragTableG7 = Inr ?bc"
    by (simp add: CreateBallisticCoefficient_def dragFunctionFactory_def DragTableG1_def
        DragTableG2_def DragTableG5_def DragTableG6_def DragTableG7_def)
  from Drag_formula [OF h, of 0]
  obtain dragFn T curve d where v: "0 < (0.223 :: real)"
    and tT: "(DragTableG7, T) \<in> {(DragTableG1, g1Table), (DragTableG2, g2Table), (DragTableG5, g5Table),
              (DragTableG6, g6Table), (DragTableG7, g7Table), (DragTableG8, g8Table),
              (DragTableGI, gITable), (DragTableGS, gSTable)}"
    and c: "calculateCurve T = Some curve"
    and ev: "\<forall>mach. dragFn mach = calculateByCurve T curve mach"
    and d: "dragFn 0 = Some d"
    and D: "Drag ?bc 0 = Some (d * (2.08551 / 10 ^ 4) / 0.223)"
    by blast
  from tT have T: "T = g7Table"
    by (simp add: DragTableG1_def DragTableG2_def DragTableG5_def DragTableG6_def DragTableG7_def
        DragTableG8_def DragTableGI_def DragTableGS_def)
  have first: "g7Table ! 0 = \<lparr>A = 0.00, B = 0.1198\<rparr>" by (simp add: g7Table_def)
  have "calculateByCurve g7Table curve (A (g7Table ! 0)) = Some (B (g7Table ! 0))"
    by (rule calculateByCurve_node [OF g7Table_increasing _ c [unfolded T]])
       (simp_all add: g7Table_length)
  then have "calculateByCurve g7Table curve 0 = Some 0.1198" by (simp add: first)
  with ev d T have "d = 0.1198" by simp
  with D h v show ?thesis by simp
qed

text \<open>
  C5. The claim: for a Mach input strictly nearer to the last sample than to the second to
  last one, \<open>calculateByCurve\<close> selects the last segment (index \<open>n - 1\<close>). The code on
  \<open>g1Table\<close> (79 samples, the last two at Mach 4.80 and 5.00) at the input 4.95: the selected
  segment is 77, not 78.
\<close>

theorem g1_near_last_sample_selects_77:
  "\<exists>curve. calculateCurve g1Table = Some curve \<and> length curve = 79
    \<and> \<bar>4.95 - A (g1Table ! 78)\<bar> < \<bar>4.95 - A (g1Table ! 77)\<bar>
    \<and> selectSegment g1Table curve 4.95 = Some 77"
proof -
  have n: "2 \<le> length g1Table" by (simp add: g1Table_length)
  from calculateCurve_spec [OF n]
  obtain curve where c: "calculateCurve g1Table = Some curve" "length curve = length g1Table" by blast
  have "selectSegment g1Table curve 4.95 = Some (int (length curve) - 2)"
    by (rule selectSegment_beyond [OF g1Table_increasing])
       (simp_all add: c g1Table_length g1Table_last_samples)
  then show ?thesis using c by (simp add: g1Table_length g1Table_last_samples)
qed

text \<open>
  C6. The claim: for a Mach input above the largest sample Mach, \<open>calculateByCurve\<close> selects
  the last segment (index \<open>n - 1\<close>) and returns its extrapolated value. The code on
  \<open>g1Table\<close> (79 samples, the largest Mach is 5.00) at the input 6: the selected segment is
  77, and the value returned is that of segment 77.
\<close>

theorem g1_above_range_selects_77:
  "\<exists>curve. calculateCurve g1Table = Some curve \<and> length curve = 79
    \<and> A (g1Table ! 78) < 6
    \<and> selectSegment g1Table curve 6 = Some 77
    \<and> calculateByCurve g1Table curve 6 = Some (evalSegment (curve ! 77) 6)"
proof -
  have n: "2 \<le> length g1Table" by (simp add: g1Table_length)
  from calculateCurve_spec [OF n]
  obtain curve where c: "calculateCurve g1Table = Some curve" "length curve = length g1Table" by blast
  have s: "selectSegment g1Table curve 6 = Some (int (length curve) - 2)"
    by (rule selectSegment_beyond [OF g1Table_increasing])
       (simp_all add: c g1Table_length g1Table_last_samples)
  have "2 \<le> length curve" "length g1Table = length curve" using c n by simp_all
  from calculateByCurve_eval [OF this, of 6] s
  have "calculateByCurve g1Table curve 6 = Some (evalSegment (curve ! nat (int (length curve) - 2)) 6)"
    by auto
  with s c show ?thesis by (simp add: g1Table_length g1Table_last_samples)
qed

text \<open>
  C7. For every table with at least two samples and strictly increasing Mach values,
  \<open>calculateCurve\<close> returns exactly as many segments as there are samples. Each interior
  segment \<open>i\<close> (from \<open>1\<close> to \<open>n - 2\<close>) takes the values of the samples \<open>i - 1\<close>, \<open>i\<close> and
  \<open>i + 1\<close> at their Mach values, and it is the only quadratic that does. The segments \<open>0\<close>
  and \<open>n - 1\<close> have quadratic coefficient zero, and their slope is the secant slope of the
  two samples at that end of the table.
\<close>

theorem calculateCurve_segments:
  assumes "increasing dataPoints" and "2 \<le> length dataPoints"
  shows "\<exists>curve. calculateCurve dataPoints = Some curve \<and> length curve = length dataPoints
    \<and> (\<forall>i. 1 \<le> i \<and> i + 2 \<le> length dataPoints \<longrightarrow>
          evalSegment (curve ! i) (A (dataPoints ! (i - 1))) = B (dataPoints ! (i - 1))
        \<and> evalSegment (curve ! i) (A (dataPoints ! i)) = B (dataPoints ! i)
        \<and> evalSegment (curve ! i) (A (dataPoints ! (i + 1))) = B (dataPoints ! (i + 1))
        \<and> (\<forall>q. evalSegment q (A (dataPoints ! (i - 1))) = B (dataPoints ! (i - 1))
              \<and> evalSegment q (A (dataPoints ! i)) = B (dataPoints ! i)
              \<and> evalSegment q (A (dataPoints ! (i + 1))) = B (dataPoints ! (i + 1))
              \<longrightarrow> q = curve ! i))
    \<and> CurvePoint.A (curve ! 0) = 0
    \<and> CurvePoint.B (curve ! 0) =
         (B (dataPoints ! 1) - B (dataPoints ! 0)) / (A (dataPoints ! 1) - A (dataPoints ! 0))
    \<and> CurvePoint.A (curve ! (length dataPoints - 1)) = 0
    \<and> CurvePoint.B (curve ! (length dataPoints - 1)) =
         (B (dataPoints ! (length dataPoints - 1)) - B (dataPoints ! (length dataPoints - 2)))
         / (A (dataPoints ! (length dataPoints - 1)) - A (dataPoints ! (length dataPoints - 2)))"
proof -
  let ?n = "length dataPoints"
  from calculateCurve_spec [OF assms(2)]
  obtain curve where c: "calculateCurve dataPoints = Some curve" "length curve = ?n"
    and c0: "curve ! 0 = (let rate = (B (dataPoints ! 1) - B (dataPoints ! 0)) / (A (dataPoints ! 1) - A (dataPoints ! 0))
         in \<lparr>CurvePoint.A = 0, CurvePoint.B = rate, C = B (dataPoints ! 0) - A (dataPoints ! 0) * rate\<rparr>)"
    and cj: "\<forall>j. 1 \<le> j \<and> j + 2 \<le> ?n \<longrightarrow> curve ! j = fit3 (dataPoints ! (j - 1)) (dataPoints ! j) (dataPoints ! (j + 1))"
    and cl: "curve ! (?n - 1) =
        (let dl = dataPoints ! (?n - 1); dk = dataPoints ! (?n - 2);
             rate = (B dl - B dk) / (A dl - A dk)
         in \<lparr>CurvePoint.A = 0, CurvePoint.B = rate, C = B dl - A dk * rate\<rparr>)"
    by blast
  have inner: "evalSegment (curve ! i) (A (dataPoints ! (i - 1))) = B (dataPoints ! (i - 1))
        \<and> evalSegment (curve ! i) (A (dataPoints ! i)) = B (dataPoints ! i)
        \<and> evalSegment (curve ! i) (A (dataPoints ! (i + 1))) = B (dataPoints ! (i + 1))
        \<and> (\<forall>q. evalSegment q (A (dataPoints ! (i - 1))) = B (dataPoints ! (i - 1))
              \<and> evalSegment q (A (dataPoints ! i)) = B (dataPoints ! i)
              \<and> evalSegment q (A (dataPoints ! (i + 1))) = B (dataPoints ! (i + 1))
              \<longrightarrow> q = curve ! i)"
    if i: "1 \<le> i \<and> i + 2 \<le> ?n" for i
  proof -
    let ?p1 = "dataPoints ! (i - 1)" and ?p2 = "dataPoints ! i" and ?p3 = "dataPoints ! (i + 1)"
    have ci: "curve ! i = fit3 ?p1 ?p2 ?p3" using cj i by blast
    have lt: "A ?p1 < A ?p2" "A ?p2 < A ?p3" "A ?p1 < A ?p3"
      using increasing_less [OF assms(1)] i by simp_all
    then have ne: "A ?p1 \<noteq> A ?p2" "A ?p1 \<noteq> A ?p3" "A ?p2 \<noteq> A ?p3" by simp_all
    have e1: "evalSegment (curve ! i) (A ?p1) = B ?p1" unfolding ci by (rule fit3_at_x1)
    have e2: "evalSegment (curve ! i) (A ?p2) = B ?p2" unfolding ci by (rule fit3_at_x2 [OF ne(1)])
    have e3: "evalSegment (curve ! i) (A ?p3) = B ?p3" unfolding ci by (rule fit3_at_x3 [OF ne])
    have "q = curve ! i"
      if q: "evalSegment q (A ?p1) = B ?p1 \<and> evalSegment q (A ?p2) = B ?p2 \<and> evalSegment q (A ?p3) = B ?p3"
      for q
    proof -
      have "CurvePoint.A q = CurvePoint.A (curve ! i) \<and> CurvePoint.B q = CurvePoint.B (curve ! i)
          \<and> C q = C (curve ! i)"
        using quadratic_unique [OF ne, of "C q" "CurvePoint.B q" "CurvePoint.A q"
            "C (curve ! i)" "CurvePoint.B (curve ! i)" "CurvePoint.A (curve ! i)"] q e1 e2 e3
        by (simp add: evalSegment_def)
      then show ?thesis by simp
    qed
    with e1 e2 e3 show ?thesis by blast
  qed
  from c c0 cl inner show ?thesis by (simp add: Let_def)
qed

theorem calculateCurve_segments_witness:
  "increasing [\<lparr>A = 0, B = 0\<rparr>, \<lparr>A = 1, B = 1\<rparr>, \<lparr>A = 2, B = 4\<rparr>]
   \<and> 2 \<le> length [\<lparr>A = 0, B = 0\<rparr>, \<lparr>A = 1, B = 1\<rparr>, \<lparr>A = 2, B = 4\<rparr>]
   \<and> (\<exists>curve. calculateCurve [\<lparr>A = 0, B = 0\<rparr>, \<lparr>A = 1, B = 1\<rparr>, \<lparr>A = 2, B = 4\<rparr>] = Some curve
        \<and> length curve = 3
        \<and> evalSegment (curve ! 1) 0 = 0 \<and> evalSegment (curve ! 1) 1 = 1 \<and> evalSegment (curve ! 1) 2 = 4
        \<and> CurvePoint.A (curve ! 0) = 0 \<and> CurvePoint.B (curve ! 0) = 1
        \<and> CurvePoint.A (curve ! 2) = 0 \<and> CurvePoint.B (curve ! 2) = 3)"
proof -
  let ?T = "[\<lparr>A = 0, B = 0\<rparr>, \<lparr>A = 1, B = 1\<rparr>, \<lparr>A = 2, B = 4\<rparr>]"
  have h1: "increasing ?T" by simp
  have h2: "2 \<le> length ?T" by simp
  from calculateCurve_segments [OF h1 h2]
  obtain curve where c: "calculateCurve ?T = Some curve" "length curve = length ?T"
    and i: "\<forall>i. 1 \<le> i \<and> i + 2 \<le> length ?T \<longrightarrow>
          evalSegment (curve ! i) (A (?T ! (i - 1))) = B (?T ! (i - 1))
        \<and> evalSegment (curve ! i) (A (?T ! i)) = B (?T ! i)
        \<and> evalSegment (curve ! i) (A (?T ! (i + 1))) = B (?T ! (i + 1))"
    and e: "CurvePoint.A (curve ! 0) = 0"
      "CurvePoint.B (curve ! 0) = (B (?T ! 1) - B (?T ! 0)) / (A (?T ! 1) - A (?T ! 0))"
      "CurvePoint.A (curve ! (length ?T - 1)) = 0"
      "CurvePoint.B (curve ! (length ?T - 1)) =
         (B (?T ! (length ?T - 1)) - B (?T ! (length ?T - 2)))
         / (A (?T ! (length ?T - 1)) - A (?T ! (length ?T - 2)))"
    by blast
  from i [rule_format, of 1] have "evalSegment (curve ! 1) 0 = 0 \<and> evalSegment (curve ! 1) 1 = 1
      \<and> evalSegment (curve ! 1) 2 = 4" by simp
  with c e h1 h2 show ?thesis by (simp add: numeral_2_eq_2)
qed

text \<open>
  C8. Each of the eight reference tables \<open>g1Table\<close>, \<open>g2Table\<close>, \<open>g5Table\<close>, \<open>g6Table\<close>,
  \<open>g7Table\<close>, \<open>g8Table\<close>, \<open>gITable\<close> and \<open>gSTable\<close> has strictly increasing Mach values:
  for every index \<open>i\<close> below the length minus one, the Mach value of sample \<open>i\<close> is strictly
  less than the Mach value of sample \<open>i + 1\<close>.
\<close>

theorem reference_tables_strictly_increasing:
  assumes "T \<in> {g1Table, g2Table, g5Table, g6Table, g7Table, g8Table, gITable, gSTable}"
    and "i < length T - 1"
  shows "A (T ! i) < A (T ! (i + 1))"
proof -
  have "increasing T" using referenceTable_cases [OF assms(1)] by simp
  moreover have "Suc i < length T" using assms(2) by simp
  ultimately show ?thesis using increasing_Suc by simp
qed

theorem reference_tables_strictly_increasing_witness:
  "g7Table \<in> {g1Table, g2Table, g5Table, g6Table, g7Table, g8Table, gITable, gSTable}
   \<and> 82 < length g7Table - 1
   \<and> A (g7Table ! 82) < A (g7Table ! (82 + 1))"
proof -
  have h1: "g7Table \<in> {g1Table, g2Table, g5Table, g6Table, g7Table, g8Table, gITable, gSTable}"
    by simp
  have h2: "82 < length g7Table - 1" by (simp add: g7Table_length)
  from reference_tables_strictly_increasing [OF h1 h2] h1 h2 show ?thesis by blast
qed

text \<open>
  C9, as stated: the table of the GS family differs from the table of the GI family, so the
  two drag functions differ at some Mach number. In the code the two tables are the same
  list, and \<open>dragFunctionFactory\<close> returns the same function for both identifiers.
\<close>

theorem gSTable_is_gITable:
  "gSTable = gITable \<and> dragFunctionFactory DragTableGS = dragFunctionFactory DragTableGI"
  by (simp add: dragFunctionFactory_def gSTable_def gSCurve_def gICurve_def DragTableG1_def
      DragTableG2_def DragTableG5_def DragTableG6_def DragTableG7_def DragTableG8_def
      DragTableGI_def DragTableGS_def)

text \<open>
  C9, amended. The seven tables of G1, G2, G5, G6, G7, G8 and GI are pairwise different; the
  table of GS is the table of GI, and the GS and GI drag functions return the same value at
  every Mach number.
\<close>

theorem seven_tables_and_GS_is_GI:
  "distinct [g1Table, g2Table, g5Table, g6Table, g7Table, g8Table, gITable]
   \<and> gSTable = gITable
   \<and> (\<exists>f g. dragFunctionFactory DragTableGS = Inr f \<and> dragFunctionFactory DragTableGI = Inr g
        \<and> (\<forall>mach. f mach = g mach))"
proof -
  have "B (T ! 0) \<noteq> B (T' ! 0) \<Longrightarrow> T \<noteq> T'" for T T' :: "DataPoint list" by auto
  note ne = this
  have "distinct [g1Table, g2Table, g5Table, g6Table, g7Table, g8Table, gITable]"
    by (simp add: ne tables_first_sample)
  moreover have "gSTable = gITable" by (simp add: gSTable_def)
  moreover have "\<exists>f g. dragFunctionFactory DragTableGS = Inr f \<and> dragFunctionFactory DragTableGI = Inr g
        \<and> (\<forall>mach. f mach = g mach)"
    by (simp add: dragFunctionFactory_def gSTable_def gSCurve_def gICurve_def DragTableG1_def
      DragTableG2_def DragTableG5_def DragTableG6_def DragTableG7_def DragTableG8_def
      DragTableGI_def DragTableGS_def)
  ultimately show ?thesis by blast
qed

text \<open>
  C10. For every table with at least two samples, a curve of the same length and every Mach
  input, \<open>calculateByCurve\<close> returns a value (no index is out of range), the segment it
  selects has an index from \<open>0\<close> to \<open>n - 2\<close>, and the last segment of the curve (index
  \<open>n - 1\<close>) is never selected: replacing it by any other segment leaves the result unchanged.
\<close>

theorem calculateByCurve_never_selects_last:
  assumes "2 \<le> length curve" and "length data = length curve"
  shows "\<exists>m y. selectSegment data curve mach = Some m \<and> 0 \<le> m \<and> m \<le> int (length curve) - 2
      \<and> calculateByCurve data curve mach = Some y
      \<and> (\<forall>p. calculateByCurve data (curve[length curve - 1 := p]) mach = Some y)"
proof -
  from calculateByCurve_eval [OF assms, of mach]
  obtain m where m: "selectSegment data curve mach = Some m" "0 \<le> m" "m \<le> int (length curve) - 2"
    and v: "calculateByCurve data curve mach = Some (evalSegment (curve ! nat m) mach)"
    by blast
  have "calculateByCurve data (curve[length curve - 1 := p]) mach = Some (evalSegment (curve ! nat m) mach)" for p
  proof -
    let ?c = "curve[length curve - 1 := p]"
    have "selectSegment data ?c mach = Some m" using m(1) selectSegment_ignores_curve [of ?c curve] by simp
    moreover have "nat m \<noteq> length curve - 1" using m assms by linarith
    then have "elemAt ?c m = Some (curve ! nat m)" using m by (simp add: elemAt_def)
    ultimately show ?thesis by (simp add: calculateByCurve_def evalSegment_def)
  qed
  with m v show ?thesis by blast
qed

theorem calculateByCurve_never_selects_last_witness:
  "2 \<le> length [\<lparr>CurvePoint.A = 0, CurvePoint.B = 1, C = 0\<rparr>, \<lparr>CurvePoint.A = 0, CurvePoint.B = 1, C = 7\<rparr>]
   \<and> length [\<lparr>A = 0, B = 0\<rparr>, \<lparr>A = 1, B = 1\<rparr>]
       = length [\<lparr>CurvePoint.A = 0, CurvePoint.B = 1, C = 0\<rparr>, \<lparr>CurvePoint.A = 0, CurvePoint.B = 1, C = 7\<rparr>]
   \<and> (\<exists>m y. selectSegment [\<lparr>A = 0, B = 0\<rparr>, \<lparr>A = 1, B = 1\<rparr>]
               [\<lparr>CurvePoint.A = 0, CurvePoint.B = 1, C = 0\<rparr>, \<lparr>CurvePoint.A = 0, CurvePoint.B = 1, C = 7\<rparr>] 5 = Some m
        \<and> 0 \<le> m \<and> m \<le> 0
        \<and> calculateByCurve [\<lparr>A = 0, B = 0\<rparr>, \<lparr>A = 1, B = 1\<rparr>]
               [\<lparr>CurvePoint.A = 0, CurvePoint.B = 1, C = 0\<rparr>, \<lparr>CurvePoint.A = 0, CurvePoint.B = 1, C = 7\<rparr>] 5 = Some y)"
  using calculateByCurve_never_selects_last
    [of "[\<lparr>CurvePoint.A = 0, CurvePoint.B = 1, C = 0\<rparr>, \<lparr>CurvePoint.A = 0, CurvePoint.B = 1, C = 7\<rparr>]"
        "[\<lparr>A = 0, B = 0\<rparr>, \<lparr>A = 1, B = 1\<rparr>]" 5]
  by simp blast

end
